theory Spec2Isabelle
  imports Complex_Main
begin

section \<open>Strings and lines\<close>

text \<open>
  A JavaScript string is modelled as a \<open>string\<close>: one \<open>char\<close> per code unit, so that
  \<open>length\<close> is the \<open>.length\<close> property the token estimators read. Only the code
  units below 256 are represented. The line feed is the separator of
  \<open>content.split('\n')\<close> and of \<open>currentChunk.join('\n')\<close>.
\<close>

definition NL :: char where
  "NL = CHR 0x0A"

text \<open>
  \<open>text.split('\n')\<close>: the pieces between line feeds. It never returns an empty array:
  the empty string splits into one empty line, and a text that ends in a line feed has an
  empty last line.
\<close>

fun split_lines :: "string \<Rightarrow> string list" where
  "split_lines [] = [[]]"
| "split_lines (c # cs) =
     (if c = NL then [] # split_lines cs
      else (case split_lines cs of
              [] \<Rightarrow> [[c]]
            | l # ls \<Rightarrow> (c # l) # ls))"

text \<open>\<open>lines.join('\n')\<close>: the empty array joins to the empty string.\<close>

fun join_lines :: "string list \<Rightarrow> string" where
  "join_lines [] = []"
| "join_lines [l] = l"
| "join_lines (l # m # ls) = l @ NL # join_lines (m # ls)"

section \<open>The chunker (class FileChunker)\<close>

text \<open>
  \<open>estimateTokens(text) { return Math.ceil(text.length / 4); }\<close>. The quotient of a
  length by four is exact in double precision, so the real ceiling is the value returned.
\<close>

definition FileChunker_estimateTokens :: "string \<Rightarrow> int" where
  "FileChunker_estimateTokens text = \<lceil>real (length text) / 4\<rceil>"

text \<open>
  The constructor reads \<open>options.maxTokens || 4000\<close> and \<open>options.overlap || 200\<close>: a
  missing or zero (falsy) option takes the default, every other number is kept as it is.
  Nothing is validated. The budgets are integers, as \<open>parseInt\<close> gives them to the
  command line interface; \<open>None\<close> stands for a missing option and for \<open>NaN\<close>. The fields \<open>chunkDir\<close> and \<open>preserveContext\<close> are not read by
  the chunking itself and are left out. The field \<open>this.overlap\<close> is named
  \<open>overlapTokens\<close> here, as the local constant of \<open>getOverlapLines\<close> that holds it.
\<close>

record Options =
  opt_maxTokens :: "int option"
  opt_overlap :: "int option"

record FileChunker =
  maxTokens :: int
  overlapTokens :: int

definition or_default :: "int option \<Rightarrow> int \<Rightarrow> int" where
  "or_default v d = (case v of None \<Rightarrow> d | Some n \<Rightarrow> if n = 0 then d else n)"

definition new_FileChunker :: "Options \<Rightarrow> FileChunker" where
  "new_FileChunker options =
     \<lparr> maxTokens = or_default (opt_maxTokens options) 4000,
       overlapTokens = or_default (opt_overlap options) 200 \<rparr>"

text \<open>
  \<open>getOverlapLines(chunk)\<close>: the loop runs \<open>i\<close> from the last line down while
  \<open>tokens < overlapTokens\<close>, putting \<open>chunk[i]\<close> in front of the lines collected so far.
  The first argument of \<open>overlap_loop\<close> is the part of the chunk not yet visited, last line
  first.
\<close>

fun overlap_loop :: "int \<Rightarrow> string list \<Rightarrow> string list \<Rightarrow> int \<Rightarrow> string list" where
  "overlap_loop ov [] overlapLines tokens = overlapLines"
| "overlap_loop ov (l # rest) overlapLines tokens =
     (if tokens < ov
      then overlap_loop ov rest (l # overlapLines) (tokens + FileChunker_estimateTokens l)
      else overlapLines)"

definition getOverlapLines :: "FileChunker \<Rightarrow> string list \<Rightarrow> string list" where
  "getOverlapLines this chunk = overlap_loop (overlapTokens this) (rev chunk) [] 0"

text \<open>
  A chunk as \<open>createChunks\<close> pushes it. \<open>startLine\<close> and \<open>endLine\<close> are 1-based line
  numbers of the original file.
\<close>

record Chunk =
  number :: nat
  content :: string
  startLine :: int
  endLine :: int
  tokens :: int
  overlap :: "string list"

text \<open>
  The variables of the loop of \<open>createChunks\<close>. After a chunk is closed the source
  assigns \<open>currentChunk = overlapLines\<close>, the very array it has just stored in the field
  \<open>overlap\<close> of the closed chunk; every later \<open>currentChunk.push(line)\<close> therefore also
  changes that field, until the next chunk is closed and \<open>currentChunk\<close> is bound to a
  new array. \<open>push_line\<close> writes this sharing out: while \<open>chunks\<close> is not empty, the
  \<open>overlap\<close> of its last element is \<open>currentChunk\<close>.
\<close>

record LoopState =
  chunks :: "Chunk list"
  currentChunk :: "string list"
  currentTokens :: int
  chunkNumber :: nat

definition close_chunk :: "FileChunker \<Rightarrow> nat \<Rightarrow> LoopState \<Rightarrow> LoopState" where
  "close_chunk this i st =
     (let overlapLines = getOverlapLines this (currentChunk st)
      in \<lparr> chunks = chunks st @
             [\<lparr> number = chunkNumber st,
                content = join_lines (currentChunk st),
                startLine = int i - int (length (currentChunk st)) + 1,
                endLine = int i,
                tokens = currentTokens st,
                overlap = overlapLines \<rparr>],
           currentChunk = overlapLines,
           currentTokens = FileChunker_estimateTokens (join_lines overlapLines),
           chunkNumber = chunkNumber st + 1 \<rparr>)"

definition push_line :: "string \<Rightarrow> int \<Rightarrow> LoopState \<Rightarrow> LoopState" where
  "push_line line lineTokens st =
     st \<lparr> chunks :=
            (if chunks st = [] then []
             else butlast (chunks st) @
                  [(last (chunks st)) \<lparr> overlap := currentChunk st @ [line] \<rparr>]),
          currentChunk := currentChunk st @ [line],
          currentTokens := currentTokens st + lineTokens \<rparr>"

definition loop_body :: "FileChunker \<Rightarrow> nat \<Rightarrow> string \<Rightarrow> LoopState \<Rightarrow> LoopState" where
  "loop_body this i line st =
     (let lineTokens = FileChunker_estimateTokens line
      in push_line line lineTokens
           (if currentTokens st + lineTokens > maxTokens this \<and> length (currentChunk st) > 0
            then close_chunk this i st else st))"

text \<open>The \<open>for\<close> loop over \<open>lines[i]\<close>, from index \<open>i\<close> on.\<close>

fun chunk_loop :: "FileChunker \<Rightarrow> nat \<Rightarrow> string list \<Rightarrow> LoopState \<Rightarrow> LoopState" where
  "chunk_loop this i [] st = st"
| "chunk_loop this i (line # rest) st = chunk_loop this (Suc i) rest (loop_body this i line st)"

definition final_chunk :: "nat \<Rightarrow> LoopState \<Rightarrow> Chunk list" where
  "final_chunk n st =
     (if length (currentChunk st) > 0
      then chunks st @
           [\<lparr> number = chunkNumber st,
              content = join_lines (currentChunk st),
              startLine = int n - int (length (currentChunk st)) + 1,
              endLine = int n,
              tokens = currentTokens st,
              overlap = [] \<rparr>]
      else chunks st)"

text \<open>
  \<open>createChunks(content, filePath)\<close>. The path only selects the patterns of
  \<open>findBreakpoints\<close>, whose result is stored in a local constant that the loop never
  reads; the chunks depend on the text and the two budgets alone.
\<close>

definition createChunks :: "FileChunker \<Rightarrow> string \<Rightarrow> Chunk list" where
  "createChunks this text =
     (let lines = split_lines text
      in final_chunk (length lines)
           (chunk_loop this 0 lines
              \<lparr> chunks = [], currentChunk = [], currentTokens = 0, chunkNumber = 1 \<rparr>))"

section \<open>Regular expressions of the reviewer\<close>

text \<open>
  The patterns of \<open>analyzeCode\<close> and \<open>estimateComplexity\<close> use literals, the classes
  \<open>\s\<close>, \<open>\w\<close>, \<open>.\<close> and \<open>[^)]\<close>, alternation, and repetition of a single class only.
  \<open>in_cls\<close> is class membership for code units below 256: \<open>\s\<close> is the white space and
  line terminators of ECMAScript (tab, line feed, vertical tab, form feed, carriage
  return, space, no-break space), \<open>.\<close> is everything but a line terminator.
\<close>

datatype cls = OneOf string | NoneOf string | Space | Word | Dot

datatype rx = Empty | One cls | Seq rx rx | Alt rx rx | Star cls

definition isSpace :: "char \<Rightarrow> bool" where
  "isSpace c = (c \<in> set [CHR 0x09, CHR 0x0A, CHR 0x0B, CHR 0x0C, CHR 0x0D, CHR 0x20, CHR 0xA0])"

fun in_cls :: "cls \<Rightarrow> char \<Rightarrow> bool" where
  "in_cls (OneOf cs) c = (c \<in> set cs)"
| "in_cls (NoneOf cs) c = (c \<notin> set cs)"
| "in_cls Space c = isSpace c"
| "in_cls Word c =
     (c \<in> set ''abcdefghijklmnopqrstuvwxyzABCDEFGHIJKLMNOPQRSTUVWXYZ0123456789_'')"
| "in_cls Dot c = (c \<notin> set [CHR 0x0A, CHR 0x0D])"

text \<open>
  The matcher returns what is left of the text after each way of matching a prefix of
  it, in the order a backtracking matcher tries them: a star takes the longest run first,
  an alternation its left branch first.
\<close>

fun star_rests :: "cls \<Rightarrow> string \<Rightarrow> string list" where
  "star_rests p [] = [[]]"
| "star_rests p (c # cs) = (if in_cls p c then star_rests p cs @ [c # cs] else [c # cs])"

fun rx_rests :: "rx \<Rightarrow> string \<Rightarrow> string list" where
  "rx_rests Empty s = [s]"
| "rx_rests (One p) [] = []"
| "rx_rests (One p) (c # cs) = (if in_cls p c then [cs] else [])"
| "rx_rests (Seq a b) s = concat (map (rx_rests b) (rx_rests a s))"
| "rx_rests (Alt a b) s = rx_rests a s @ rx_rests b s"
| "rx_rests (Star p) s = star_rests p s"

text \<open>\<open>regex.test(s)\<close> for a pattern without flags: is there a match at some position.\<close>

fun regex_test :: "rx \<Rightarrow> string \<Rightarrow> bool" where
  "regex_test r [] = (rx_rests r [] \<noteq> [])"
| "regex_test r (c # cs) = (rx_rests r (c # cs) \<noteq> [] \<or> regex_test r cs)"

text \<open>
  \<open>s.match(regex)\<close> with the flag \<open>g\<close> returns every match, found from left to right,
  each search starting where the previous match ended (one further on after an empty
  match); \<open>match_count\<close> is the length of that array, zero for \<open>null\<close>.
\<close>

function match_count :: "rx \<Rightarrow> string \<Rightarrow> nat" where
  "match_count r [] = (if rx_rests r [] \<noteq> [] then 1 else 0)"
| "match_count r (c # cs) =
     (case rx_rests r (c # cs) of
        [] \<Rightarrow> match_count r cs
      | t # _ \<Rightarrow> Suc (if length t \<le> length cs then match_count r t else match_count r cs))"
  by pat_completeness auto
termination
  by (relation "measure (\<lambda>(r, s). length s)") auto

fun lit :: "string \<Rightarrow> rx" where
  "lit [] = Empty"
| "lit (c # cs) = Seq (One (OneOf [c])) (lit cs)"

fun seqs :: "rx list \<Rightarrow> rx" where
  "seqs [] = Empty"
| "seqs (r # rs) = Seq r (seqs rs)"

definition one_or_more :: "cls \<Rightarrow> rx" where
  "one_or_more p = Seq (One p) (Star p)"

section \<open>The reviewer (class CodeReviewer)\<close>

definition CodeReviewer_estimateTokens :: "string \<Rightarrow> int" where
  "CodeReviewer_estimateTokens text = \<lceil>real (length text) / 4\<rceil>"

datatype severity = critical | high | medium | low | info

record Pattern =
  pattern_regex :: rx
  pattern_severity :: severity
  pattern_message :: string

text \<open>The table \<open>patterns\<close> of \<open>analyzeCode\<close>, one constant per key.\<close>

definition security :: "Pattern list" where
  "security =
     [ \<lparr> pattern_regex = seqs [lit ''eval'', Star Space, lit ''(''],
         pattern_severity = critical,
         pattern_message = ''Avoid using eval() - security risk'' \<rparr>,
       \<lparr> pattern_regex = seqs [lit ''innerHTML'', Star Space, lit ''=''],
         pattern_severity = high,
         pattern_message = ''Direct innerHTML assignment - XSS risk'' \<rparr>,
       \<lparr> pattern_regex =
           seqs [lit ''password'', Star Space, lit ''='', Star Space,
                 One (OneOf [CHR 0x27, CHR 0x22])],
         pattern_severity = critical,
         pattern_message = ''Hardcoded password detected'' \<rparr> ]"

definition performance :: "Pattern list" where
  "performance =
     [ \<lparr> pattern_regex =
           seqs [lit ''for'', Star Space, lit ''('', Star Dot, lit ''in'', one_or_more Space],
         pattern_severity = medium,
         pattern_message = ''for...in loop can be slow'' \<rparr>,
       \<lparr> pattern_regex =
           seqs [lit ''document.querySelector'', Star Dot, lit ''inside'', Star Dot,
                 lit ''loop''],
         pattern_severity = high,
         pattern_message = ''DOM query inside loop'' \<rparr> ]"

definition bestPractices :: "Pattern list" where
  "bestPractices =
     [ \<lparr> pattern_regex =
           seqs [lit ''console.'', Alt (lit ''log'') (Alt (lit ''error'') (lit ''warn''))],
         pattern_severity = low,
         pattern_message = ''Remove console statements'' \<rparr>,
       \<lparr> pattern_regex =
           seqs [lit ''var'', one_or_more Space, one_or_more Word, Star Space, lit ''=''],
         pattern_severity = info,
         pattern_message = ''Use const/let instead of var'' \<rparr>,
       \<lparr> pattern_regex =
           seqs [lit ''function'', one_or_more Space, one_or_more Word, Star Space, lit ''('',
                 seqs (replicate 40 (One (NoneOf '')''))), Star (NoneOf '')'')],
         pattern_severity = medium,
         pattern_message = ''Too many parameters'' \<rparr> ]"

text \<open>
  \<open>patterns[template.toLowerCase()] || patterns.bestPractices\<close>. The key
  \<open>bestPractices\<close> is not lower case, so no template selects it by name; it is the rule
  set of every template other than \<open>security\<close> and \<open>performance\<close>. Two lower-case names
  are properties that the object \<open>patterns\<close> inherits (\<open>constructor\<close>, \<open>__proto__\<close>): their
  value is not an array and \<open>forEach\<close> on it raises a TypeError. The other two
  errors are those of the file system: a file that cannot be read, a file or directory
  that cannot be written.
\<close>

datatype error = TypeError | ReadError | WriteError

definition toLowerCase_char :: "char \<Rightarrow> char" where
  "toLowerCase_char c =
     (let n = (of_char c :: nat)
      in if (65 \<le> n \<and> n \<le> 90) \<or> (192 \<le> n \<and> n \<le> 222 \<and> n \<noteq> 215)
         then char_of (n + 32) else c)"

definition toLowerCase :: "string \<Rightarrow> string" where
  "toLowerCase s = map toLowerCase_char s"

definition lookup_patterns :: "string \<Rightarrow> error + Pattern list" where
  "lookup_patterns template =
     (let key = toLowerCase template
      in if key = ''security'' then Inr security
         else if key = ''performance'' then Inr performance
         else if key = ''constructor'' \<or> key = ''__proto__'' then Inl TypeError
         else Inr bestPractices)"

text \<open>\<open>s.trim()\<close>: white space and line terminators removed at both ends.\<close>

definition trim :: "string \<Rightarrow> string" where
  "trim s = rev (dropWhile isSpace (rev (dropWhile isSpace s)))"

record Finding =
  line :: nat
  severity :: severity
  message :: string
  code :: string

text \<open>
  The two nested \<open>forEach\<close> of \<open>analyzeCode\<close>: for the line at \<open>index\<close>, one finding per
  pattern that matches it, in the order of the patterns; its line number is
  \<open>index + 1\<close>, counted in the text that was passed in.
\<close>

definition line_findings :: "Pattern list \<Rightarrow> nat \<Rightarrow> string \<Rightarrow> Finding list" where
  "line_findings activePatterns index l =
     map (\<lambda>pattern. \<lparr> line = index + 1, severity = pattern_severity pattern,
                       message = pattern_message pattern, code = trim l \<rparr>)
         (filter (\<lambda>pattern. regex_test (pattern_regex pattern) l) activePatterns)"

fun analyze_lines :: "Pattern list \<Rightarrow> nat \<Rightarrow> string list \<Rightarrow> Finding list" where
  "analyze_lines activePatterns index [] = []"
| "analyze_lines activePatterns index (l # ls) =
     line_findings activePatterns index l @ analyze_lines activePatterns (Suc index) ls"

definition analyzeCode :: "string \<Rightarrow> string \<Rightarrow> error + Finding list" where
  "analyzeCode text template =
     (case lookup_patterns template of
        Inl e \<Rightarrow> Inl e
      | Inr ps \<Rightarrow> Inr (analyze_lines ps 0 (split_lines text)))"

text \<open>\<open>estimateComplexity\<close>: one, plus the number of matches of each indicator.\<close>

definition complexityIndicators :: "rx list" where
  "complexityIndicators =
     [ seqs [lit ''if'', Star Space, lit ''(''],
       seqs [lit ''else'', Star Space, lit ''{''],
       seqs [lit ''for'', Star Space, lit ''(''],
       seqs [lit ''while'', Star Space, lit ''(''],
       seqs [lit ''case'', one_or_more Space],
       seqs [lit ''catch'', Star Space, lit ''(''] ]"

definition estimateComplexity :: "string \<Rightarrow> int" where
  "estimateComplexity text =
     fold (\<lambda>pattern complexity. complexity + int (match_count pattern text))
          complexityIndicators 1"

record Metrics =
  totalLines :: int
  codeLines :: int
  commentLines :: int
  complexity :: int
  metrics_tokens :: int

definition startsWith :: "string \<Rightarrow> string \<Rightarrow> bool" where
  "startsWith s p = (take (length p) s = p)"

definition calculateMetrics :: "string \<Rightarrow> Metrics" where
  "calculateMetrics text =
     (let lines = split_lines text;
          nonEmptyLines = filter (\<lambda>l. length (trim l) > 0) lines
      in \<lparr> totalLines = int (length lines),
           codeLines = int (length nonEmptyLines),
           commentLines =
             int (length (filter (\<lambda>l. startsWith (trim l) ''//'' \<or> startsWith (trim l) ''#'')
                            lines)),
           complexity = estimateComplexity text,
           metrics_tokens = CodeReviewer_estimateTokens text \<rparr>)"

text \<open>
  The reviewer, as far as reviewing a chunked file reads it: \<open>config.memory\<close>, the
  options from which it builds the chunker, and the names \<open>n\<close> for which the template
  file \<open>n.md\<close> can be read. \<open>loadTemplate\<close> returns the name it was given when that
  file can be read and \<open>best-practices\<close> otherwise.
\<close>

record CodeReviewer =
  memory :: Options
  templateFiles :: "string list"

definition loadTemplate :: "CodeReviewer \<Rightarrow> string \<Rightarrow> string" where
  "loadTemplate this templateName =
     (if templateName \<in> set (templateFiles this) then templateName else ''best-practices'')"

text \<open>
  A review as \<open>performReview\<close> builds it from its parameter \<open>content\<close>, here
  \<open>text\<close>. The file name, the path and the time stamp are copied from the caller and
  the clock and are left out, and so is the summary sentence.
\<close>

record Review =
  review_template :: string
  review_chunkNumber :: "nat option"
  review_findings :: "Finding list"
  review_metrics :: Metrics

definition performReview :: "CodeReviewer \<Rightarrow> string \<Rightarrow> string \<Rightarrow> nat option \<Rightarrow> error + Review" where
  "performReview this text templateName chunkNo =
     (let template = loadTemplate this templateName
      in case analyzeCode text template of
           Inl e \<Rightarrow> Inl e
         | Inr fs \<Rightarrow>
             Inr \<lparr> review_template = templateName, review_chunkNumber = chunkNo,
                   review_findings = fs, review_metrics = calculateMetrics text \<rparr>)"

text \<open>
  \<open>combineReviews\<close>. Each finding is copied with one more property, \<open>chunk\<close>, the
  position of its review in the list counted from one. The metrics of a review are
  numbers, so \<open>review.metrics[key] || 0\<close> is the metric itself.
\<close>

record CombinedFinding = Finding +
  chunk :: nat

record CombinedReview =
  combined_totalChunks :: nat
  combined_findings :: "CombinedFinding list"
  combined_metrics :: Metrics

definition with_chunk :: "nat \<Rightarrow> Finding \<Rightarrow> CombinedFinding" where
  "with_chunk n finding =
     \<lparr> line = line finding, severity = severity finding, message = message finding,
       code = code finding, chunk = n \<rparr>"

definition add_metrics :: "Metrics \<Rightarrow> Metrics \<Rightarrow> Metrics" where
  "add_metrics a b =
     \<lparr> totalLines = totalLines a + totalLines b,
       codeLines = codeLines a + codeLines b,
       commentLines = commentLines a + commentLines b,
       complexity = complexity a + complexity b,
       metrics_tokens = metrics_tokens a + metrics_tokens b \<rparr>"

fun combine_loop :: "nat \<Rightarrow> Review list \<Rightarrow> CombinedReview \<Rightarrow> CombinedReview" where
  "combine_loop index [] combined = combined"
| "combine_loop index (review # rest) combined =
     combine_loop (Suc index) rest
       (combined \<lparr> combined_findings :=
                     combined_findings combined @
                     map (with_chunk (index + 1)) (review_findings review),
                   combined_metrics :=
                     add_metrics (combined_metrics combined) (review_metrics review) \<rparr>)"

definition combineReviews :: "Review list \<Rightarrow> CombinedReview" where
  "combineReviews reviews =
     combine_loop 0 reviews
       \<lparr> combined_totalChunks = length reviews,
         combined_findings = [],
         combined_metrics =
           \<lparr> totalLines = 0, codeLines = 0, commentLines = 0, complexity = 0,
             metrics_tokens = 0 \<rparr> \<rparr>"

text \<open>
  What the file system does during one run, besides giving the text of the file: whether
  \<open>fs.stat\<close> on the file succeeds, whether \<open>saveChunks\<close> can write the chunk directory,
  its metadata and the chunk files, and whether \<open>saveReview\<close> can write the review and
  its report.
\<close>

record FileSystem =
  stat_ok :: bool
  saveChunks_ok :: bool
  saveReview_ok :: bool

text \<open>
  \<open>chunkFile\<close> awaits, in this order, \<open>fs.readFile\<close>, \<open>fs.stat\<close>, \<open>createChunks\<close> and
  \<open>saveChunks\<close>, and returns the chunks; an error of any of them is logged and thrown
  again. The text is \<open>None\<close> for a file that cannot be read.
\<close>

definition chunkFile :: "FileChunker \<Rightarrow> string option \<Rightarrow> FileSystem \<Rightarrow> error + Chunk list" where
  "chunkFile this file disk =
     (case file of
        None \<Rightarrow> Inl ReadError
      | Some text \<Rightarrow>
          if \<not> stat_ok disk then Inl ReadError
          else (let chunks = createChunks this text
                in if \<not> saveChunks_ok disk then Inl WriteError else Inr chunks))"

text \<open>
  \<open>reviewChunkedFile\<close>: the chunker is built from \<open>config.memory\<close>, every chunk's
  \<open>content\<close> is reviewed in turn, the reviews are combined, and the combined review is
  saved and returned. The first review that raises ends the loop.
\<close>

fun review_chunks :: "CodeReviewer \<Rightarrow> string \<Rightarrow> Chunk list \<Rightarrow> error + Review list" where
  "review_chunks this template [] = Inr []"
| "review_chunks this template (c # cs) =
     (case performReview this (content c) template (Some (number c)) of
        Inl e \<Rightarrow> Inl e
      | Inr chunkReview \<Rightarrow>
          (case review_chunks this template cs of
             Inl e \<Rightarrow> Inl e
           | Inr reviews \<Rightarrow> Inr (chunkReview # reviews)))"

definition reviewChunkedFile ::
    "CodeReviewer \<Rightarrow> string option \<Rightarrow> FileSystem \<Rightarrow> string \<Rightarrow> error + CombinedReview" where
  "reviewChunkedFile this file disk template =
     (case chunkFile (new_FileChunker (memory this)) file disk of
        Inl e \<Rightarrow> Inl e
      | Inr cs \<Rightarrow>
          (case review_chunks this template cs of
             Inl e \<Rightarrow> Inl e
           | Inr reviews \<Rightarrow>
               (let combinedReview = combineReviews reviews
                in if \<not> saveReview_ok disk then Inl WriteError else Inr combinedReview)))"

section \<open>Notions of the specification\<close>

text \<open>
  The lines of a chunk are the lines of its \<open>content\<close>. The overlap slice of a chunk
  after the first is what \<open>getOverlapLines\<close> returned for the lines of the chunk before
  it; the first chunk has none. The new lines of a chunk are its lines without its
  overlap slice. \<open>new_from\<close> walks the chunks in order, carrying the slice that seeded
  the chunk at hand.
\<close>

definition chunk_lines :: "Chunk \<Rightarrow> string list" where
  "chunk_lines c = split_lines (content c)"

definition overlap_slice :: "FileChunker \<Rightarrow> Chunk list \<Rightarrow> nat \<Rightarrow> string list" where
  "overlap_slice this cs k =
     (if k = 0 then [] else getOverlapLines this (chunk_lines (cs ! (k - 1))))"

fun new_from :: "FileChunker \<Rightarrow> string list \<Rightarrow> string list list \<Rightarrow> string list list" where
  "new_from this seed [] = []"
| "new_from this seed (ls # rest) =
     drop (length seed) ls # new_from this (getOverlapLines this ls) rest"

definition new_lines :: "FileChunker \<Rightarrow> Chunk list \<Rightarrow> string list list" where
  "new_lines this cs = new_from this [] (map chunk_lines cs)"

text \<open>
  The overlap slices of all chunks, in order; the first is empty. It is the list of the
  slices \<open>seed\<close> that \<open>new_from\<close> drops.
\<close>

fun seeds_from :: "FileChunker \<Rightarrow> string list \<Rightarrow> string list list \<Rightarrow> string list list" where
  "seeds_from this seed [] = []"
| "seeds_from this seed (ls # rest) = seed # seeds_from this (getOverlapLines this ls) rest"

definition overlap_slices :: "FileChunker \<Rightarrow> Chunk list \<Rightarrow> string list list" where
  "overlap_slices this cs = seeds_from this [] (map chunk_lines cs)"

text \<open>
  The loop of \<open>createChunks\<close> on the index, the lines and the running total alone: the
  list of the line arrays joined into the chunks, each with the total recorded for it and
  the index at which it was closed.
\<close>

fun plan :: "FileChunker \<Rightarrow> nat \<Rightarrow> string list \<Rightarrow> int \<Rightarrow> string list \<Rightarrow>
    (string list \<times> int \<times> nat) list" where
  "plan this i cur tok [] = (if cur = [] then [] else [(cur, tok, i)])"
| "plan this i cur tok (l # rest) =
     (if tok + FileChunker_estimateTokens l > maxTokens this \<and> cur \<noteq> []
      then (cur, tok, i) #
           plan this (Suc i) (getOverlapLines this cur @ [l])
             (FileChunker_estimateTokens (join_lines (getOverlapLines this cur)) +
              FileChunker_estimateTokens l) rest
      else plan this (Suc i) (cur @ [l]) (tok + FileChunker_estimateTokens l) rest)"

text \<open>
  Every line array of the list begins with the overlap slice of the array before it;
  the first one begins with \<open>seed\<close>.
\<close>

fun chained :: "FileChunker \<Rightarrow> string list \<Rightarrow> string list list \<Rightarrow> bool" where
  "chained this seed [] = True"
| "chained this seed (ls # rest) =
     (take (length seed) ls = seed \<and> chained this (getOverlapLines this ls) rest)"

text \<open>
  The findings that \<open>combineReviews\<close> appends for the reviews from position \<open>index\<close>
  on, and the sum of a list of metrics.
\<close>

fun tagged :: "nat \<Rightarrow> Review list \<Rightarrow> CombinedFinding list" where
  "tagged index [] = []"
| "tagged index (review # rest) =
     map (with_chunk (index + 1)) (review_findings review) @ tagged (Suc index) rest"

definition sum_metrics :: "Metrics list \<Rightarrow> Metrics" where
  "sum_metrics ms =
     \<lparr> totalLines = sum_list (map totalLines ms),
       codeLines = sum_list (map codeLines ms),
       commentLines = sum_list (map commentLines ms),
       complexity = sum_list (map complexity ms),
       metrics_tokens = sum_list (map metrics_tokens ms) \<rparr>"

text \<open>The number of findings with a given line number and message.\<close>

definition count_key :: "nat \<Rightarrow> string \<Rightarrow> 'a Finding_scheme list \<Rightarrow> nat" where
  "count_key n m fs = length (filter (\<lambda>f. line f = n \<and> message f = m) fs)"

text \<open>The rank of a severity: \<open>critical > high > medium > low > info\<close>.\<close>

fun rank :: "severity \<Rightarrow> nat" where
  "rank critical = 4"
| "rank high = 3"
| "rank medium = 2"
| "rank low = 1"
| "rank info = 0"

text \<open>
  What the proofs below compare: the fields of a chunk other than \<open>overlap\<close>, and the
  same fields as \<open>createChunks\<close> computes them from a planned chunk and its number.
\<close>

definition chunk_facts :: "Chunk \<Rightarrow> nat \<times> string \<times> int \<times> int \<times> int" where
  "chunk_facts c = (number c, content c, startLine c, endLine c, tokens c)"

fun built :: "nat \<Rightarrow> (string list \<times> int \<times> nat) list \<Rightarrow> (nat \<times> string \<times> int \<times> int \<times> int) list" where
  "built num [] = []"
| "built num (p # ps) =
     (num, join_lines (fst p), int (snd (snd p)) - int (length (fst p)) + 1,
      int (snd (snd p)), fst (snd p)) # built (Suc num) ps"

section \<open>Two small files\<close>

text \<open>
  The combined reviews of two small files, of two and of three lines, reviewed with
  \<open>maxTokens = 4\<close> and \<open>overlap = 1\<close> under the rule set \<open>bestPractices\<close>.
\<close>

abbreviation two_lines_review :: CombinedReview where
  "two_lines_review \<equiv>
     \<lparr> combined_totalChunks = 2,
       combined_findings =
       [ \<lparr> line = 1, severity = info, message = ''Use const/let instead of var'',
           code = ''var x = 1;'', chunk = 1 \<rparr>,
         \<lparr> line = 1, severity = info, message = ''Use const/let instead of var'',
           code = ''var x = 1;'', chunk = 2 \<rparr>,
         \<lparr> line = 2, severity = low, message = ''Remove console statements'',
           code = ''console.log(x)'', chunk = 2 \<rparr> ],
       combined_metrics =
       \<lparr> totalLines = 3, codeLines = 3, commentLines = 0, complexity = 2,
        metrics_tokens = 10 \<rparr> \<rparr>"

abbreviation three_lines_review :: CombinedReview where
  "three_lines_review \<equiv>
     \<lparr> combined_totalChunks = 3,
       combined_findings =
       [ \<lparr> line = 1, severity = info, message = ''Use const/let instead of var'',
           code = ''var x = 1;'', chunk = 1 \<rparr>,
         \<lparr> line = 1, severity = info, message = ''Use const/let instead of var'',
           code = ''var x = 1;'', chunk = 2 \<rparr>,
         \<lparr> line = 2, severity = low, message = ''Remove console statements'',
           code = ''console.log(x)'', chunk = 2 \<rparr>,
         \<lparr> line = 1, severity = low, message = ''Remove console statements'',
           code = ''console.log(x)'', chunk = 3 \<rparr>,
         \<lparr> line = 2, severity = info, message = ''Use const/let instead of var'',
           code = ''var y = 2;'', chunk = 3 \<rparr> ],
       combined_metrics =
       \<lparr> totalLines = 5, codeLines = 5, commentLines = 0, complexity = 3,
        metrics_tokens = 17 \<rparr> \<rparr>"

section \<open>Evaluation of the estimators\<close>

lemma estimateTokens_div [code]: "FileChunker_estimateTokens text = (int (length text) + 3) div 4"
  unfolding FileChunker_estimateTokens_def by linarith

lemma reviewer_estimateTokens_div [code]:
  "CodeReviewer_estimateTokens text = (int (length text) + 3) div 4"
  unfolding CodeReviewer_estimateTokens_def by linarith

section \<open>Lines and overlap slices\<close>

lemma split_lines_nonempty: "split_lines s \<noteq> []"
  by (induction s) (auto split: list.splits)

lemma split_lines_no_NL: "l \<in> set (split_lines s) \<Longrightarrow> NL \<notin> set l"
  by (induction s arbitrary: l) (auto split: if_splits list.splits)

lemma split_lines_single: "NL \<notin> set l \<Longrightarrow> split_lines l = [l]"
  by (induction l) auto

lemma split_lines_append_NL: "NL \<notin> set l \<Longrightarrow> split_lines (l @ NL # s) = l # split_lines s"
  by (induction l) auto

lemma split_join:
  "ls \<noteq> [] \<Longrightarrow> \<forall>l\<in>set ls. NL \<notin> set l \<Longrightarrow> split_lines (join_lines ls) = ls"
  by (induction ls rule: join_lines.induct)
     (simp_all add: split_lines_single split_lines_append_NL)

lemma overlap_loop_tail_sum:
  "(acc \<noteq> [] \<longrightarrow> sum_list (map FileChunker_estimateTokens (tl acc)) < ov) \<Longrightarrow>
   t = sum_list (map FileChunker_estimateTokens acc) \<Longrightarrow>
   overlap_loop ov rs acc t \<noteq> [] \<longrightarrow>
   sum_list (map FileChunker_estimateTokens (tl (overlap_loop ov rs acc t))) < ov"
proof (induction rs arbitrary: acc t)
  case Nil
  then show ?case by simp
next
  case (Cons l rs)
  show ?case
  proof (cases "t < ov")
    case True
    have "overlap_loop ov rs (l # acc) (t + FileChunker_estimateTokens l) \<noteq> [] \<longrightarrow>
      sum_list (map FileChunker_estimateTokens
        (tl (overlap_loop ov rs (l # acc) (t + FileChunker_estimateTokens l)))) < ov"
      using True Cons.prems by (intro Cons.IH) simp_all
    with True show ?thesis by simp
  next
    case False
    with Cons.prems show ?thesis by simp
  qed
qed

lemma overlap_loop_shape:
  "\<exists>j\<le>length rs. overlap_loop ov rs acc t = rev (take j rs) @ acc"
proof (induction rs arbitrary: acc t)
  case Nil
  then show ?case by simp
next
  case (Cons l rs)
  show ?case
  proof (cases "t < ov")
    case True
    from Cons.IH [of "l # acc" "t + FileChunker_estimateTokens l"]
    obtain j where "j \<le> length rs"
      and "overlap_loop ov rs (l # acc) (t + FileChunker_estimateTokens l) = rev (take j rs) @ l # acc"
      by blast
    then have "Suc j \<le> length (l # rs) \<and> overlap_loop ov (l # rs) acc t = rev (take (Suc j) (l # rs)) @ acc"
      using True by simp
    then show ?thesis by blast
  next
    case False
    then have "0 \<le> length (l # rs) \<and> overlap_loop ov (l # rs) acc t = rev (take 0 (l # rs)) @ acc"
      by simp
    then show ?thesis by blast
  qed
qed

lemma getOverlapLines_suffix:
  "\<exists>j\<le>length ls. getOverlapLines this ls = drop (length ls - j) ls"
proof -
  obtain j where j: "j \<le> length (rev ls)"
    and eq: "overlap_loop (overlapTokens this) (rev ls) [] 0 = rev (take j (rev ls)) @ []"
    using overlap_loop_shape by blast
  have "rev (take j (rev ls)) = drop (length ls - j) ls"
    by (simp add: take_rev)
  with j eq show ?thesis unfolding getOverlapLines_def by auto
qed

lemma getOverlapLines_drop:
  "getOverlapLines this ls = drop (length ls - length (getOverlapLines this ls)) ls"
proof -
  obtain j where j: "j \<le> length ls" and eq: "getOverlapLines this ls = drop (length ls - j) ls"
    using getOverlapLines_suffix by blast
  from j eq have "length (getOverlapLines this ls) = j" by simp
  with eq show ?thesis by simp
qed

lemma getOverlapLines_subset: "set (getOverlapLines this ls) \<subseteq> set ls"
  using getOverlapLines_suffix [of ls this] by (auto dest: in_set_dropD)

lemma getOverlapLines_tail_sum:
  "0 < overlapTokens this \<Longrightarrow>
   sum_list (map FileChunker_estimateTokens (tl (getOverlapLines this ls))) < overlapTokens this"
  using overlap_loop_tail_sum [of "[]" "overlapTokens this" 0 "rev ls"]
  unfolding getOverlapLines_def by (cases "overlap_loop (overlapTokens this) (rev ls) [] 0 = []") auto

section \<open>The loop of createChunks and its plan\<close>

lemma chunk_facts_touch_last:
  "cs \<noteq> [] \<Longrightarrow> map chunk_facts (butlast cs @ [(last cs) \<lparr> overlap := x \<rparr>]) = map chunk_facts cs"
proof -
  assume "cs \<noteq> []"
  then have "cs = butlast cs @ [last cs]" by simp
  then have "map chunk_facts cs = map chunk_facts (butlast cs) @ [chunk_facts (last cs)]"
    by (metis list.simps(8,9) map_append)
  then show ?thesis by (simp add: chunk_facts_def)
qed

lemma loop_body_close:
  "maxTokens this < currentTokens st + FileChunker_estimateTokens l \<Longrightarrow> currentChunk st \<noteq> [] \<Longrightarrow>
   map chunk_facts (chunks (loop_body this i l st)) =
     map chunk_facts (chunks st) @
     [(chunkNumber st, join_lines (currentChunk st),
       int i - int (length (currentChunk st)) + 1, int i, currentTokens st)] \<and>
   currentChunk (loop_body this i l st) = getOverlapLines this (currentChunk st) @ [l] \<and>
   currentTokens (loop_body this i l st) =
     FileChunker_estimateTokens (join_lines (getOverlapLines this (currentChunk st))) +
     FileChunker_estimateTokens l \<and>
   chunkNumber (loop_body this i l st) = Suc (chunkNumber st)"
  by (simp add: loop_body_def push_line_def close_chunk_def Let_def chunk_facts_def)

lemma loop_body_keep:
  "\<not> (maxTokens this < currentTokens st + FileChunker_estimateTokens l \<and> currentChunk st \<noteq> []) \<Longrightarrow>
   map chunk_facts (chunks (loop_body this i l st)) = map chunk_facts (chunks st) \<and>
   currentChunk (loop_body this i l st) = currentChunk st @ [l] \<and>
   currentTokens (loop_body this i l st) = currentTokens st + FileChunker_estimateTokens l \<and>
   chunkNumber (loop_body this i l st) = chunkNumber st"
  using chunk_facts_touch_last [of "chunks st" "currentChunk st @ [l]"]
  by (auto simp add: loop_body_def push_line_def Let_def)

lemma chunk_loop_plan:
  "n = i + length lines \<Longrightarrow>
   map chunk_facts (final_chunk n (chunk_loop this i lines st)) =
   map chunk_facts (chunks st) @
   built (chunkNumber st) (plan this i (currentChunk st) (currentTokens st) lines)"
proof (induction lines arbitrary: st i)
  case Nil
  then show ?case by (simp add: final_chunk_def chunk_facts_def)
next
  case (Cons l rest)
  have n: "n = Suc i + length rest" using Cons.prems by simp
  show ?case
  proof (cases "maxTokens this < currentTokens st + FileChunker_estimateTokens l \<and> currentChunk st \<noteq> []")
    case True
    then show ?thesis
      using Cons.IH [OF n, of "loop_body this i l st"] loop_body_close [of this st l i]
      by simp
  next
    case False
    then show ?thesis
      using Cons.IH [OF n, of "loop_body this i l st"] loop_body_keep [of this st l i]
      by auto
  qed
qed

lemma createChunks_plan:
  "map chunk_facts (createChunks this text) = built 1 (plan this 0 [] 0 (split_lines text))"
  unfolding createChunks_def Let_def
  by (simp add: chunk_loop_plan)

lemma built_length: "length (built num ps) = length ps"
  by (induction ps arbitrary: num) simp_all

lemma built_nth:
  "k < length ps \<Longrightarrow>
   built num ps ! k =
     (num + k, join_lines (fst (ps ! k)),
      int (snd (snd (ps ! k))) - int (length (fst (ps ! k))) + 1,
      int (snd (snd (ps ! k))), fst (snd (ps ! k)))"
proof (induction ps arbitrary: num k)
  case Nil
  then show ?case by simp
next
  case (Cons p ps)
  then show ?case by (cases k) simp_all
qed

lemma createChunks_length:
  "length (createChunks this text) = length (plan this 0 [] 0 (split_lines text))"
  using arg_cong [OF createChunks_plan [of this "text"], of length]
  by (simp add: built_length)

lemma createChunks_nth:
  assumes "k < length (createChunks this text)"
  shows "number (createChunks this text ! k) = Suc k"
    and "content (createChunks this text ! k) =
           join_lines (fst (plan this 0 [] 0 (split_lines text) ! k))"
    and "startLine (createChunks this text ! k) =
           int (snd (snd (plan this 0 [] 0 (split_lines text) ! k))) -
           int (length (fst (plan this 0 [] 0 (split_lines text) ! k))) + 1"
    and "endLine (createChunks this text ! k) =
           int (snd (snd (plan this 0 [] 0 (split_lines text) ! k)))"
    and "tokens (createChunks this text ! k) =
           fst (snd (plan this 0 [] 0 (split_lines text) ! k))"
proof -
  let ?ps = "plan this 0 [] 0 (split_lines text)"
  have k: "k < length ?ps" using assms by (simp add: createChunks_length)
  have "map chunk_facts (createChunks this text) ! k = built 1 ?ps ! k"
    by (simp add: createChunks_plan)
  then have "chunk_facts (createChunks this text ! k) = built 1 ?ps ! k"
    using assms by simp
  then have *: "chunk_facts (createChunks this text ! k) =
      (1 + k, join_lines (fst (?ps ! k)),
       int (snd (snd (?ps ! k))) - int (length (fst (?ps ! k))) + 1,
       int (snd (snd (?ps ! k))), fst (snd (?ps ! k)))"
    using built_nth [OF k, of 1] by simp
  from * show "number (createChunks this text ! k) = Suc k"
    by (simp add: chunk_facts_def)
  from * show "content (createChunks this text ! k) = join_lines (fst (?ps ! k))"
    by (simp add: chunk_facts_def)
  from * show "startLine (createChunks this text ! k) =
      int (snd (snd (?ps ! k))) - int (length (fst (?ps ! k))) + 1"
    by (simp add: chunk_facts_def)
  from * show "endLine (createChunks this text ! k) = int (snd (snd (?ps ! k)))"
    by (simp add: chunk_facts_def)
  from * show "tokens (createChunks this text ! k) = fst (snd (?ps ! k))"
    by (simp add: chunk_facts_def)
qed

section \<open>Properties of the plan\<close>

lemma plan_lines_ok:
  "\<forall>l\<in>set cur \<union> set rest. NL \<notin> set l \<Longrightarrow> p \<in> set (plan this i cur tok rest) \<Longrightarrow>
   fst p \<noteq> [] \<and> (\<forall>l\<in>set (fst p). NL \<notin> set l)"
proof (induction this i cur tok rest rule: plan.induct)
  case (1 this i cur tok)
  then show ?case by (auto split: if_splits)
next
  case (2 this i cur tok l rest)
  show ?case
  proof (cases "maxTokens this < tok + FileChunker_estimateTokens l \<and> cur \<noteq> []")
    case True
    have ok: "\<forall>l\<in>set (getOverlapLines this cur @ [l]) \<union> set rest. NL \<notin> set l"
      using "2.prems"(1) getOverlapLines_subset [of this cur] by auto
    from "2.prems"(2) True
    consider "p = (cur, tok, i)"
      | "p \<in> set (plan this (Suc i) (getOverlapLines this cur @ [l])
            (FileChunker_estimateTokens (join_lines (getOverlapLines this cur)) +
             FileChunker_estimateTokens l) rest)"
      by auto
    then show ?thesis
    proof cases
      case 1
      with True "2.prems"(1) show ?thesis by auto
    next
      case 2
      with "2.IH"(1) [OF True ok] show ?thesis by blast
    qed
  next
    case False
    have ok: "\<forall>l\<in>set (cur @ [l]) \<union> set rest. NL \<notin> set l"
      using "2.prems"(1) by auto
    from "2.prems"(2) False
    have "p \<in> set (plan this (Suc i) (cur @ [l]) (tok + FileChunker_estimateTokens l) rest)"
      by auto
    with "2.IH"(2) [OF False ok] show ?thesis by blast
  qed
qed

lemma plan_new:
  "length seed \<le> length cur \<Longrightarrow>
   concat (new_from this seed (map fst (plan this i cur tok rest))) = drop (length seed) cur @ rest"
proof (induction this i cur tok rest arbitrary: seed rule: plan.induct)
  case (1 this i cur tok)
  then show ?case by simp
next
  case (2 this i cur tok l rest)
  show ?case
  proof (cases "maxTokens this < tok + FileChunker_estimateTokens l \<and> cur \<noteq> []")
    case True
    have "concat (new_from this (getOverlapLines this cur)
            (map fst (plan this (Suc i) (getOverlapLines this cur @ [l])
              (FileChunker_estimateTokens (join_lines (getOverlapLines this cur)) +
               FileChunker_estimateTokens l) rest))) =
          drop (length (getOverlapLines this cur)) (getOverlapLines this cur @ [l]) @ rest"
      by (rule "2.IH"(1) [OF True]) simp
    with True show ?thesis by simp
  next
    case False
    have "concat (new_from this seed
            (map fst (plan this (Suc i) (cur @ [l]) (tok + FileChunker_estimateTokens l) rest))) =
          drop (length seed) (cur @ [l]) @ rest"
      by (rule "2.IH"(2) [OF False]) (use "2.prems" in simp)
    with False "2.prems" show ?thesis by auto
  qed
qed

lemma plan_chained:
  "take (length seed) cur = seed \<Longrightarrow> chained this seed (map fst (plan this i cur tok rest))"
proof (induction this i cur tok rest arbitrary: seed rule: plan.induct)
  case (1 this i cur tok)
  then show ?case by simp
next
  case (2 this i cur tok l rest)
  show ?case
  proof (cases "maxTokens this < tok + FileChunker_estimateTokens l \<and> cur \<noteq> []")
    case True
    have "chained this (getOverlapLines this cur)
            (map fst (plan this (Suc i) (getOverlapLines this cur @ [l])
              (FileChunker_estimateTokens (join_lines (getOverlapLines this cur)) +
               FileChunker_estimateTokens l) rest))"
      by (rule "2.IH"(1) [OF True]) simp
    with True "2.prems" show ?thesis by simp
  next
    case False
    have "length (take (length seed) cur) = length seed"
      using "2.prems" by simp
    then have len: "length seed \<le> length cur"
      by simp
    have "chained this seed
            (map fst (plan this (Suc i) (cur @ [l]) (tok + FileChunker_estimateTokens l) rest))"
      by (rule "2.IH"(2) [OF False]) (use "2.prems" len in simp)
    moreover have "plan this i cur tok (l # rest) =
        plan this (Suc i) (cur @ [l]) (tok + FileChunker_estimateTokens l) rest"
      using False by auto
    ultimately show ?thesis by simp
  qed
qed

lemma plan_budget:
  "cur = [] \<or> tok \<le> maxTokens this \<or> length (drop (length seed) cur) = 1 \<Longrightarrow>
   length seed \<le> length cur \<Longrightarrow>
   list_all2 (\<lambda>p nw. fst (snd p) \<le> maxTokens this \<or> length nw = 1)
     (plan this i cur tok rest) (new_from this seed (map fst (plan this i cur tok rest)))"
proof (induction this i cur tok rest arbitrary: seed rule: plan.induct)
  case (1 this i cur tok)
  then show ?case by auto
next
  case (2 this i cur tok l rest)
  show ?case
  proof (cases "maxTokens this < tok + FileChunker_estimateTokens l \<and> cur \<noteq> []")
    case True
    let ?ov = "getOverlapLines this cur"
    let ?out = "plan this (Suc i) (?ov @ [l])
              (FileChunker_estimateTokens (join_lines ?ov) + FileChunker_estimateTokens l) rest"
    have "list_all2 (\<lambda>p nw. fst (snd p) \<le> maxTokens this \<or> length nw = 1)
            ?out (new_from this ?ov (map fst ?out))"
      by (rule "2.IH"(1) [OF True]) simp_all
    with True "2.prems" show ?thesis by simp
  next
    case False
    let ?out = "plan this (Suc i) (cur @ [l]) (tok + FileChunker_estimateTokens l) rest"
    have "list_all2 (\<lambda>p nw. fst (snd p) \<le> maxTokens this \<or> length nw = 1)
            ?out (new_from this seed (map fst ?out))"
    proof (rule "2.IH"(2) [OF False])
      show "length seed \<le> length (cur @ [l])" using "2.prems" by simp
      show "cur @ [l] = [] \<or> tok + FileChunker_estimateTokens l \<le> maxTokens this \<or>
            length (drop (length seed) (cur @ [l])) = 1"
        using False "2.prems" by (cases "cur = []") auto
    qed
    moreover have "plan this i cur tok (l # rest) = ?out"
      using False by auto
    ultimately show ?thesis by simp
  qed
qed

lemma createChunks_lines:
  "map chunk_lines (createChunks this text) = map fst (plan this 0 [] 0 (split_lines text))"
proof (rule nth_equalityI)
  show "length (map chunk_lines (createChunks this text)) =
        length (map fst (plan this 0 [] 0 (split_lines text)))"
    by (simp add: createChunks_length)
  fix k assume "k < length (map chunk_lines (createChunks this text))"
  then have k: "k < length (createChunks this text)" by simp
  let ?p = "plan this 0 [] 0 (split_lines text) ! k"
  have "?p \<in> set (plan this 0 [] 0 (split_lines text))"
    using k by (simp add: createChunks_length)
  then have "fst ?p \<noteq> [] \<and> (\<forall>l\<in>set (fst ?p). NL \<notin> set l)"
    by (rule plan_lines_ok [rotated]) (simp add: split_lines_no_NL)
  then have "split_lines (join_lines (fst ?p)) = fst ?p"
    by (simp add: split_join)
  then show "map chunk_lines (createChunks this text) ! k =
      map fst (plan this 0 [] 0 (split_lines text)) ! k"
    using k by (simp add: chunk_lines_def createChunks_nth(2) createChunks_length)
qed

lemma createChunks_nonempty: "createChunks this text \<noteq> []"
proof -
  have "plan this i cur tok rest \<noteq> []" if "cur \<noteq> [] \<or> rest \<noteq> []" for i cur tok rest
    using that by (induction this i cur tok rest rule: plan.induct) auto
  then have "plan this 0 [] 0 (split_lines text) \<noteq> []"
    by (simp add: split_lines_nonempty)
  then show ?thesis
    using createChunks_length [of this "text"] by auto
qed

lemma createChunks_new_lines:
  "concat (new_lines this (createChunks this text)) = split_lines text"
  unfolding new_lines_def createChunks_lines
  using plan_new [of "[]" "[]" this 0 0 "split_lines text"] by simp

lemma chained_nth:
  "chained this seed lss \<Longrightarrow> Suc k < length lss \<Longrightarrow>
   take (length (getOverlapLines this (lss ! k))) (lss ! Suc k) = getOverlapLines this (lss ! k)"
proof (induction lss arbitrary: seed k)
  case Nil
  then show ?case by simp
next
  case (Cons ls rest)
  show ?case
  proof (cases k)
    case 0
    with Cons.prems show ?thesis by (cases rest) auto
  next
    case (Suc j)
    with Cons.prems Cons.IH [of "getOverlapLines this ls" j] show ?thesis by simp
  qed
qed

lemma overlap_loop_reach:
  "t = sum_list (map FileChunker_estimateTokens acc) \<Longrightarrow>
   ov \<le> sum_list (map FileChunker_estimateTokens (overlap_loop ov rs acc t)) \<or>
   overlap_loop ov rs acc t = rev rs @ acc"
proof (induction rs arbitrary: acc t)
  case Nil
  then show ?case by simp
next
  case (Cons l rs)
  show ?case
  proof (cases "t < ov")
    case True
    with Cons.IH [of "t + FileChunker_estimateTokens l" "l # acc"] Cons.prems
    show ?thesis by simp
  next
    case False
    with Cons.prems show ?thesis by simp
  qed
qed

lemma getOverlapLines_reach:
  "overlapTokens this \<le> sum_list (map FileChunker_estimateTokens (getOverlapLines this ls)) \<or>
   getOverlapLines this ls = ls"
  using overlap_loop_reach [of 0 "[]" "overlapTokens this" "rev ls"]
  by (simp add: getOverlapLines_def)

lemma getOverlapLines_nonempty:
  assumes "0 < overlapTokens this" and "ls \<noteq> []"
  shows "getOverlapLines this ls \<noteq> []"
proof -
  from assms(2) obtain l rs where rs: "rev ls = l # rs"
    by (cases "rev ls") auto
  obtain j where "overlap_loop (overlapTokens this) rs [l] (0 + FileChunker_estimateTokens l) =
      rev (take j rs) @ [l]"
    using overlap_loop_shape by blast
  with assms(1) rs show ?thesis by (simp add: getOverlapLines_def)
qed

lemma createChunks_lines_nonempty:
  assumes "k < length (createChunks this text)"
  shows "chunk_lines (createChunks this text ! k) \<noteq> []"
proof -
  let ?out = "plan this 0 [] 0 (split_lines text)"
  have len: "length ?out = length (createChunks this text)"
    by (simp add: createChunks_length)
  have "chunk_lines (createChunks this text ! k) = fst (?out ! k)"
    using arg_cong [OF createChunks_lines [of this "text"], of "\<lambda>xs. xs ! k"] assms len
    by simp
  moreover have "?out ! k \<in> set ?out"
    using assms len by simp
  then have "fst (?out ! k) \<noteq> []"
    using plan_lines_ok [of "[]" "split_lines text" "?out ! k" this 0 0]
    by (simp add: split_lines_no_NL)
  ultimately show ?thesis by simp
qed

lemma createChunks_chained:
  assumes "Suc k < length (createChunks this text)"
  shows "take (length (overlap_slice this (createChunks this text) (Suc k)))
           (chunk_lines (createChunks this text ! Suc k)) =
         overlap_slice this (createChunks this text) (Suc k)"
proof -
  let ?cs = "createChunks this text"
  let ?lss = "map chunk_lines ?cs"
  have "chained this [] ?lss"
    unfolding createChunks_lines by (rule plan_chained) simp
  moreover have "Suc k < length ?lss" using assms by simp
  ultimately have "take (length (getOverlapLines this (?lss ! k))) (?lss ! Suc k) =
      getOverlapLines this (?lss ! k)"
    by (rule chained_nth)
  with assms show ?thesis by (simp add: overlap_slice_def)
qed

lemma createChunks_budget:
  assumes "k < length (createChunks this text)"
  shows "tokens (createChunks this text ! k) \<le> maxTokens this \<or>
         length (new_lines this (createChunks this text) ! k) = 1"
proof -
  let ?out = "plan this 0 [] 0 (split_lines text)"
  have len: "length ?out = length (createChunks this text)"
    by (simp add: createChunks_length)
  have "list_all2 (\<lambda>p nw. fst (snd p) \<le> maxTokens this \<or> length nw = 1)
          ?out (new_from this [] (map fst ?out))"
    by (rule plan_budget) simp_all
  then have "fst (snd (?out ! k)) \<le> maxTokens this \<or> length (new_from this [] (map fst ?out) ! k) = 1"
    using assms len by (auto dest: list_all2_nthD)
  moreover have "tokens (createChunks this text ! k) = fst (snd (?out ! k))"
    using assms by (rule createChunks_nth(5))
  ultimately show ?thesis
    by (simp add: new_lines_def createChunks_lines)
qed

section \<open>Numbers and line ranges of the chunks\<close>

lemma plan_positions:
  "everything = q @ cur @ rest \<Longrightarrow> i = length q + length cur \<Longrightarrow>
   p \<in> set (plan this i cur tok rest) \<Longrightarrow>
   length (fst p) \<le> snd (snd p) \<and> snd (snd p) \<le> length everything \<and>
   fst p = take (length (fst p)) (drop (snd (snd p) - length (fst p)) everything)"
proof (induction this i cur tok rest arbitrary: q rule: plan.induct)
  case (1 this i cur tok)
  then show ?case by (auto split: if_splits)
next
  case (2 this i cur tok l rest)
  have here: "length cur \<le> i \<and> i \<le> length everything \<and>
      cur = take (length cur) (drop (i - length cur) everything)"
    using "2.prems"(1,2) by simp
  show ?case
  proof (cases "maxTokens this < tok + FileChunker_estimateTokens l \<and> cur \<noteq> []")
    case True
    let ?ov = "getOverlapLines this cur"
    obtain j where "j \<le> length cur" and ov: "?ov = drop (length cur - j) cur"
      using getOverlapLines_suffix by blast
    then have cur: "cur = take (length cur - j) cur @ ?ov"
      by simp
    have e: "everything = (q @ take (length cur - j) cur) @ (?ov @ [l]) @ rest"
      using "2.prems"(1) cur by (metis append.assoc append_Cons append_Nil)
    have len: "Suc i = length (q @ take (length cur - j) cur) + length (?ov @ [l])"
      using "2.prems"(2) cur by (metis add_Suc_right append.assoc length_append length_append_singleton)
    from "2.prems"(3) True
    consider "p = (cur, tok, i)"
      | "p \<in> set (plan this (Suc i) (?ov @ [l])
            (FileChunker_estimateTokens (join_lines ?ov) + FileChunker_estimateTokens l) rest)"
      by auto
    then show ?thesis
    proof cases
      case 1
      with here show ?thesis by simp
    next
      case 2
      from "2.IH"(1) [OF True e len 2] show ?thesis .
    qed
  next
    case False
    have e: "everything = q @ (cur @ [l]) @ rest"
      using "2.prems"(1) by simp
    have len: "Suc i = length q + length (cur @ [l])"
      using "2.prems"(2) by simp
    from "2.prems"(3) False
    have "p \<in> set (plan this (Suc i) (cur @ [l]) (tok + FileChunker_estimateTokens l) rest)"
      by auto
    from "2.IH"(2) [OF False e len this] show ?thesis .
  qed
qed

lemma createChunks_positions:
  assumes "k < length (createChunks this text)"
  shows "number (createChunks this text ! k) = Suc k"
    and "1 \<le> startLine (createChunks this text ! k)"
    and "startLine (createChunks this text ! k) \<le> endLine (createChunks this text ! k)"
    and "endLine (createChunks this text ! k) \<le> int (length (split_lines text))"
    and "chunk_lines (createChunks this text ! k) =
           take (nat (endLine (createChunks this text ! k) -
                      startLine (createChunks this text ! k) + 1))
             (drop (nat (startLine (createChunks this text ! k) - 1)) (split_lines text))"
proof -
  let ?ps = "plan this 0 [] 0 (split_lines text)"
  let ?p = "?ps ! k"
  have k: "k < length ?ps" using assms by (simp add: createChunks_length)
  then have mem: "?p \<in> set ?ps" by simp
  have pos: "length (fst ?p) \<le> snd (snd ?p) \<and> snd (snd ?p) \<le> length (split_lines text) \<and>
      fst ?p = take (length (fst ?p)) (drop (snd (snd ?p) - length (fst ?p)) (split_lines text))"
    by (rule plan_positions [of _ "[]" "[]" _ 0, OF _ _ mem]) simp_all
  have ne: "fst ?p \<noteq> []"
    using plan_lines_ok [of "[]" "split_lines text" ?p this 0 0] mem
    by (simp add: split_lines_no_NL)
  then have pos_len: "0 < length (fst ?p)" by simp
  have lines: "chunk_lines (createChunks this text ! k) = fst ?p"
    using arg_cong [OF createChunks_lines [of this "text"], of "\<lambda>xs. xs ! k"] assms k
    by simp
  note nth = createChunks_nth [OF assms]
  show "number (createChunks this text ! k) = Suc k" by (rule nth(1))
  show "1 \<le> startLine (createChunks this text ! k)"
    unfolding nth(3) using pos by linarith
  show "startLine (createChunks this text ! k) \<le> endLine (createChunks this text ! k)"
    unfolding nth(3,4) using pos_len by linarith
  show "endLine (createChunks this text ! k) \<le> int (length (split_lines text))"
    unfolding nth(4) using pos by linarith
  have a: "nat (endLine (createChunks this text ! k) -
      startLine (createChunks this text ! k) + 1) = length (fst ?p)"
    unfolding nth(3,4) by simp
  have b: "nat (startLine (createChunks this text ! k) - 1) = snd (snd ?p) - length (fst ?p)"
    unfolding nth(3) using pos by linarith
  show "chunk_lines (createChunks this text ! k) =
           take (nat (endLine (createChunks this text ! k) -
                      startLine (createChunks this text ! k) + 1))
             (drop (nat (startLine (createChunks this text ! k) - 1)) (split_lines text))"
    unfolding a b lines using pos by simp
qed

lemma createChunks_numbers:
  "map number (createChunks this text) = [1 ..< Suc (length (createChunks this text))]"
  by (rule nth_equalityI) (simp_all add: createChunks_positions(1) del: upt_Suc)

lemma chunk_line_in_file:
  assumes "k < length (createChunks this text)"
    and "j < length (chunk_lines (createChunks this text ! k))"
  shows "chunk_lines (createChunks this text ! k) ! j =
         split_lines text ! (nat (startLine (createChunks this text ! k)) - 1 + j)"
    and "nat (startLine (createChunks this text ! k)) - 1 + j < length (split_lines text)"
proof -
  let ?c = "createChunks this text ! k"
  let ?n = "nat (endLine ?c - startLine ?c + 1)"
  let ?d = "nat (startLine ?c - 1)"
  have eq: "chunk_lines ?c = take ?n (drop ?d (split_lines text))"
    using assms(1) by (rule createChunks_positions(5))
  have d: "?d = nat (startLine ?c) - 1"
    using createChunks_positions(2) [OF assms(1)] by simp
  from assms(2) eq have j: "j < ?n" "j < length (drop ?d (split_lines text))"
    by simp_all
  then have "chunk_lines ?c ! j = drop ?d (split_lines text) ! j"
    using eq by simp
  also have "\<dots> = split_lines text ! (?d + j)"
    using j(2) by simp
  finally show "chunk_lines ?c ! j = split_lines text ! (nat (startLine ?c) - 1 + j)"
    using d by simp
  from j(2) d show "nat (startLine ?c) - 1 + j < length (split_lines text)"
    by simp
qed

section \<open>The field overlap of the chunks\<close>

text \<open>
  Because of the shared array, the field \<open>overlap\<close> of every chunk but the last
  holds, once \<open>createChunks\<close> has returned, all the lines of the chunk after it;
  that of the last chunk is empty.
\<close>

lemma loop_body_shared:
  "chunks st \<noteq> [] \<or> (maxTokens this < currentTokens st + FileChunker_estimateTokens l \<and> currentChunk st \<noteq> []) \<Longrightarrow>
   chunks (loop_body this i l st) \<noteq> [] \<and>
   overlap (last (chunks (loop_body this i l st))) = currentChunk (loop_body this i l st)"
  by (auto simp add: loop_body_def push_line_def close_chunk_def Let_def)

lemma loop_body_close_overlap:
  "maxTokens this < currentTokens st + FileChunker_estimateTokens l \<Longrightarrow> currentChunk st \<noteq> [] \<Longrightarrow>
   butlast (chunks (loop_body this i l st)) = chunks st"
  by (simp add: loop_body_def push_line_def close_chunk_def Let_def)

lemma loop_body_keep_overlap:
  "\<not> (maxTokens this < currentTokens st + FileChunker_estimateTokens l \<and> currentChunk st \<noteq> []) \<Longrightarrow>
   butlast (chunks (loop_body this i l st)) = butlast (chunks st) \<and>
   (chunks (loop_body this i l st) = [] \<longleftrightarrow> chunks st = [])"
  by (auto simp add: loop_body_def push_line_def Let_def)

lemma chunk_loop_overlap:
  "chunks st \<noteq> [] \<longrightarrow> overlap (last (chunks st)) = currentChunk st \<Longrightarrow>
   map overlap (final_chunk n (chunk_loop this i lines st)) =
   map overlap (butlast (chunks st)) @
   (if chunks st = []
    then tl (map fst (plan this i (currentChunk st) (currentTokens st) lines) @ [[]])
    else map fst (plan this i (currentChunk st) (currentTokens st) lines) @ [[]])"
proof (induction lines arbitrary: st i)
  case Nil
  show ?case
  proof (cases "chunks st = []")
    case True
    then show ?thesis by (simp add: final_chunk_def)
  next
    case False
    then have "map overlap (chunks st) = map overlap (butlast (chunks st)) @ [currentChunk st]"
      using Nil.prems by (metis append_butlast_last_id list.simps(8,9) map_append)
    with False show ?thesis by (simp add: final_chunk_def)
  qed
next
  case (Cons l rest)
  let ?st = "loop_body this i l st"
  show ?case
  proof (cases "maxTokens this < currentTokens st + FileChunker_estimateTokens l \<and> currentChunk st \<noteq> []")
    case True
    have shared: "chunks ?st \<noteq> [] \<and> overlap (last (chunks ?st)) = currentChunk ?st"
      using True by (intro loop_body_shared) simp
    have bl: "butlast (chunks ?st) = chunks st"
      using True by (simp add: loop_body_close_overlap)
    have step: "map overlap (final_chunk n (chunk_loop this (Suc i) rest ?st)) =
        map overlap (chunks st) @
        map fst (plan this (Suc i) (currentChunk ?st) (currentTokens ?st) rest) @ [[]]"
      using Cons.IH [of ?st "Suc i"] shared bl by simp
    have cur: "currentChunk ?st = getOverlapLines this (currentChunk st) @ [l]"
      "currentTokens ?st =
         FileChunker_estimateTokens (join_lines (getOverlapLines this (currentChunk st))) +
         FileChunker_estimateTokens l"
      using True loop_body_close [of this st l i] by simp_all
    show ?thesis
    proof (cases "chunks st = []")
      case True
      with step cur \<open>maxTokens this < currentTokens st + FileChunker_estimateTokens l \<and> currentChunk st \<noteq> []\<close>
      show ?thesis by simp
    next
      case False
      then have "map overlap (chunks st) = map overlap (butlast (chunks st)) @ [currentChunk st]"
        using Cons.prems by (metis append_butlast_last_id list.simps(8,9) map_append)
      with False step cur \<open>maxTokens this < currentTokens st + FileChunker_estimateTokens l \<and> currentChunk st \<noteq> []\<close>
      show ?thesis by simp
    qed
  next
    case False
    have cur: "currentChunk ?st = currentChunk st @ [l]"
      "currentTokens ?st = currentTokens st + FileChunker_estimateTokens l"
      using False loop_body_keep [of this st l i] by simp_all
    have bl: "butlast (chunks ?st) = butlast (chunks st)" "chunks ?st = [] \<longleftrightarrow> chunks st = []"
      using False loop_body_keep_overlap [of this st l i] by simp_all
    have shared: "chunks ?st \<noteq> [] \<longrightarrow> overlap (last (chunks ?st)) = currentChunk ?st"
      using loop_body_shared [of st this l i] bl(2) by blast
    have pl: "plan this i (currentChunk st) (currentTokens st) (l # rest) =
        plan this (Suc i) (currentChunk ?st) (currentTokens ?st) rest"
      using False cur by auto
    show ?thesis
      using Cons.IH [OF shared, of "Suc i"] bl unfolding pl by simp
  qed
qed

lemma createChunks_overlap_field:
  "map overlap (createChunks this text) = tl (map chunk_lines (createChunks this text)) @ [[]]"
proof -
  have "map overlap (createChunks this text) =
      tl (map fst (plan this 0 [] 0 (split_lines text)) @ [[]])"
    unfolding createChunks_def Let_def by (simp add: chunk_loop_overlap)
  moreover have "map chunk_lines (createChunks this text) \<noteq> []"
    by (simp add: createChunks_nonempty)
  ultimately show ?thesis
    by (simp add: createChunks_lines)
qed

section \<open>The loop of combineReviews\<close>

lemma combine_loop_findings:
  "combined_findings (combine_loop index reviews combined) =
   combined_findings combined @ tagged index reviews"
  by (induction reviews arbitrary: index combined) simp_all

lemma add_metrics_sum:
  "add_metrics (add_metrics a b) (sum_metrics ms) = add_metrics a (sum_metrics (b # ms))"
  by (simp add: add_metrics_def sum_metrics_def)

lemma combine_loop_metrics:
  "combined_metrics (combine_loop index reviews combined) =
   add_metrics (combined_metrics combined) (sum_metrics (map review_metrics reviews))"
proof (induction reviews arbitrary: index combined)
  case Nil
  then show ?case by (simp add: add_metrics_def sum_metrics_def)
next
  case (Cons review rest)
  then show ?case by (simp add: add_metrics_sum)
qed

lemma combineReviews_findings:
  "combined_findings (combineReviews reviews) = tagged 0 reviews"
  by (simp add: combineReviews_def combine_loop_findings)

lemma combineReviews_metrics:
  "combined_metrics (combineReviews reviews) = sum_metrics (map review_metrics reviews)"
  by (simp add: combineReviews_def combine_loop_metrics add_metrics_def sum_metrics_def)

lemma count_key_append: "count_key n m (xs @ ys) = count_key n m xs + count_key n m ys"
  by (simp add: count_key_def)

lemma count_key_with_chunk: "count_key n m (map (with_chunk j) fs) = count_key n m fs"
  by (induction fs) (simp_all add: count_key_def with_chunk_def)

lemma count_key_tagged:
  "count_key n m (tagged index reviews) =
   sum_list (map (\<lambda>r. count_key n m (review_findings r)) reviews)"
  by (induction reviews arbitrary: index)
     (simp_all add: count_key_append count_key_with_chunk, simp add: count_key_def)

lemma tagged_chunk_lower: "f \<in> set (tagged index reviews) \<Longrightarrow> index < chunk f"
proof (induction reviews arbitrary: index)
  case Nil
  then show ?case by simp
next
  case (Cons review rest)
  from Cons.prems consider
      "f \<in> set (map (with_chunk (index + 1)) (review_findings review))"
    | "f \<in> set (tagged (Suc index) rest)"
    by auto
  then show ?case
  proof cases
    case 1
    then show ?thesis by (auto simp: with_chunk_def)
  next
    case 2
    from Cons.IH [OF 2] show ?thesis by simp
  qed
qed

lemma tagged_member:
  "f \<in> set (tagged index reviews) \<Longrightarrow>
   \<exists>k<length reviews. \<exists>g\<in>set (review_findings (reviews ! k)). f = with_chunk (index + k + 1) g"
proof (induction reviews arbitrary: index)
  case Nil
  then show ?case by simp
next
  case (Cons review rest)
  from Cons.prems consider
      "f \<in> set (map (with_chunk (index + 1)) (review_findings review))"
    | "f \<in> set (tagged (Suc index) rest)"
    by auto
  then show ?case
  proof cases
    case 1
    then obtain g where "g \<in> set (review_findings review)" "f = with_chunk (index + 0 + 1) g"
      by auto
    then have "0 < length (review # rest) \<and>
       (\<exists>g\<in>set (review_findings ((review # rest) ! 0)). f = with_chunk (index + 0 + 1) g)"
      by auto
    then show ?thesis by blast
  next
    case 2
    from Cons.IH [OF 2] obtain k g where "k < length rest"
      "g \<in> set (review_findings (rest ! k))" "f = with_chunk (Suc index + k + 1) g"
      by blast
    then have "Suc k < length (review # rest) \<and>
       (\<exists>g\<in>set (review_findings ((review # rest) ! Suc k)). f = with_chunk (index + Suc k + 1) g)"
      by auto
    then show ?thesis by blast
  qed
qed

section \<open>analyzeCode\<close>

lemma line_findings_line: "f \<in> set (line_findings ps index l) \<Longrightarrow> line f = index + 1 \<and> code f = trim l"
  by (auto simp: line_findings_def)

lemma analyze_lines_member:
  "f \<in> set (analyze_lines ps index ls) \<Longrightarrow>
   index + 1 \<le> line f \<and> line f \<le> index + length ls \<and> code f = trim (ls ! (line f - 1 - index))"
proof (induction ls arbitrary: index)
  case Nil
  then show ?case by simp
next
  case (Cons l ls)
  from Cons.prems consider "f \<in> set (line_findings ps index l)"
    | "f \<in> set (analyze_lines ps (Suc index) ls)" by auto
  then show ?case
  proof cases
    case 1
    then show ?thesis by (auto dest: line_findings_line)
  next
    case 2
    from Cons.IH [OF 2] have *: "Suc index + 1 \<le> line f" "line f \<le> Suc index + length ls"
      "code f = trim (ls ! (line f - 1 - Suc index))" by auto
    from *(1) have "line f - 1 - index = Suc (line f - 1 - Suc index)" by simp
    with * show ?thesis by simp
  qed
qed

lemma analyze_lines_sorted: "sorted (map line (analyze_lines ps index ls))"
proof (induction ls arbitrary: index)
  case Nil
  then show ?case by simp
next
  case (Cons l ls)
  have "\<forall>x\<in>set (line_findings ps index l). \<forall>y\<in>set (analyze_lines ps (Suc index) ls). line x \<le> line y"
    by (auto dest!: line_findings_line analyze_lines_member)
  moreover have "sorted (map line (line_findings ps index l))"
    by (simp add: line_findings_def comp_def sorted_wrt_map sorted_wrt_iff_nth_less)
  ultimately show ?case using Cons.IH [of "Suc index"]
    by (auto simp: sorted_append)
qed

section \<open>reviewChunkedFile\<close>

lemma performReview_Inr:
  "performReview this text0 template n = Inr r \<Longrightarrow>
   \<exists>ps. review_findings r = analyze_lines ps 0 (split_lines text0) \<and>
        review_metrics r = calculateMetrics text0"
  by (auto simp: performReview_def analyzeCode_def Let_def split: sum.splits)

lemma review_chunks_Inr:
  "review_chunks this template cs = Inr reviews \<Longrightarrow>
   list_all2 (\<lambda>c r. performReview this (content c) template (Some (number c)) = Inr r) cs reviews"
  by (induction cs arbitrary: reviews) (auto split: sum.splits)

lemma reviewChunkedFile_Inr:
  "reviewChunkedFile this (Some text0) disk template = Inr r \<Longrightarrow>
   \<exists>reviews. review_chunks this template (createChunks (new_FileChunker (memory this)) text0) = Inr reviews \<and>
     r = combineReviews reviews"
  by (auto simp: reviewChunkedFile_def chunkFile_def Let_def split: sum.splits if_splits)

lemma reviewed_chunks:
  assumes "review_chunks this template cs = Inr reviews"
  shows "length reviews = length cs"
    and "k < length cs \<Longrightarrow> \<exists>ps. review_findings (reviews ! k) = analyze_lines ps 0 (chunk_lines (cs ! k))"
    and "map review_metrics reviews = map (\<lambda>c. calculateMetrics (content c)) cs"
proof -
  have all: "list_all2 (\<lambda>c r. performReview this (content c) template (Some (number c)) = Inr r) cs reviews"
    using assms by (rule review_chunks_Inr)
  then show len: "length reviews = length cs"
    by (simp add: list_all2_lengthD)
  show "\<exists>ps. review_findings (reviews ! k) = analyze_lines ps 0 (chunk_lines (cs ! k))"
    if "k < length cs"
  proof -
    have "performReview this (content (cs ! k)) template (Some (number (cs ! k))) = Inr (reviews ! k)"
      using all that by (rule list_all2_nthD)
    then show ?thesis
      by (auto dest: performReview_Inr simp: chunk_lines_def)
  qed
  show "map review_metrics reviews = map (\<lambda>c. calculateMetrics (content c)) cs"
  proof (rule nth_equalityI)
    show "length (map review_metrics reviews) = length (map (\<lambda>c. calculateMetrics (content c)) cs)"
      using len by simp
    fix i assume "i < length (map review_metrics reviews)"
    then have i: "i < length cs" using len by simp
    have "performReview this (content (cs ! i)) template (Some (number (cs ! i))) = Inr (reviews ! i)"
      using all i by (rule list_all2_nthD)
    then have "review_metrics (reviews ! i) = calculateMetrics (content (cs ! i))"
      by (auto dest: performReview_Inr)
    then show "map review_metrics reviews ! i = map (\<lambda>c. calculateMetrics (content c)) cs ! i"
      using i len by simp
  qed
qed

section \<open>Overlap slices and line counts\<close>

lemma seeds_from_nth:
  "k < length lss \<Longrightarrow>
   seeds_from this seed lss ! k = (if k = 0 then seed else getOverlapLines this (lss ! (k - 1)))"
proof (induction lss arbitrary: seed k)
  case Nil
  then show ?case by simp
next
  case (Cons ls rest)
  show ?case
  proof (cases k)
    case 0
    then show ?thesis by simp
  next
    case (Suc j)
    with Cons.prems Cons.IH [of j "getOverlapLines this ls"] show ?thesis
      by (cases j) auto
  qed
qed

lemma overlap_slices_nth:
  "k < length cs \<Longrightarrow> overlap_slices this cs ! k = overlap_slice this cs k"
  by (simp add: overlap_slices_def overlap_slice_def seeds_from_nth)

lemma chained_lengths:
  "chained this seed lss \<Longrightarrow>
   length (concat lss) =
   length (concat (new_from this seed lss)) + length (concat (seeds_from this seed lss))"
proof (induction lss arbitrary: seed)
  case Nil
  then show ?case by simp
next
  case (Cons ls rest)
  then have "length (take (length seed) ls) = length seed" by simp
  then have "length seed \<le> length ls" by simp
  with Cons show ?case by simp
qed

lemma createChunks_total_lines:
  "length (concat (map chunk_lines (createChunks this text))) =
   length (split_lines text) + length (concat (overlap_slices this (createChunks this text)))"
proof -
  have "chained this [] (map chunk_lines (createChunks this text))"
    unfolding createChunks_lines by (rule plan_chained) simp
  from chained_lengths [OF this] show ?thesis
    using arg_cong [OF createChunks_new_lines [of this "text"], of length]
    by (simp add: new_lines_def overlap_slices_def)
qed

lemma totalLines_sum_metrics:
  "totalLines (sum_metrics (map (\<lambda>c. calculateMetrics (content c)) cs)) =
   int (length (concat (map chunk_lines cs)))"
  by (induction cs) (simp_all add: sum_metrics_def calculateMetrics_def chunk_lines_def Let_def)

lemma tokens_sum_metrics:
  "metrics_tokens (sum_metrics (map (\<lambda>c. calculateMetrics (content c)) cs)) =
   sum_list (map (\<lambda>c. CodeReviewer_estimateTokens (content c)) cs)"
  by (induction cs) (simp_all add: sum_metrics_def calculateMetrics_def Let_def)

lemma tagged_sorted:
  assumes "\<forall>r\<in>set reviews. sorted (map line (review_findings r))"
  shows "sorted_wrt (\<lambda>f g. chunk f < chunk g \<or> (chunk f = chunk g \<and> line f \<le> line g))
           (tagged index reviews)"
  using assms
proof (induction reviews arbitrary: index)
  case Nil
  then show ?case by simp
next
  case (Cons review rest)
  let ?R = "\<lambda>f g. chunk f < chunk g \<or> (chunk f = chunk g \<and> line f \<le> (line g :: nat))"
  have "sorted (map line (review_findings review))"
    using Cons.prems by simp
  then have "sorted_wrt (\<lambda>f g. line f \<le> line g) (review_findings review)"
    by (simp add: sorted_wrt_map)
  then have "sorted_wrt (\<lambda>f g. ?R (with_chunk (index + 1) f) (with_chunk (index + 1) g))
      (review_findings review)"
    by (rule sorted_wrt_mono_rel [rotated]) (simp add: with_chunk_def)
  then have first: "sorted_wrt ?R (map (with_chunk (index + 1)) (review_findings review))"
    by (simp add: sorted_wrt_map)
  have rest: "sorted_wrt ?R (tagged (Suc index) rest)"
    using Cons.prems by (intro Cons.IH) simp
  have cross: "\<forall>x\<in>set (map (with_chunk (index + 1)) (review_findings review)).
      \<forall>y\<in>set (tagged (Suc index) rest). ?R x y"
    by (auto dest: tagged_chunk_lower simp: with_chunk_def)
  from first rest cross show ?case
    by (simp add: sorted_wrt_append)
qed

section \<open>The chunking engine\<close>

text \<open>
  C10. The chunker and the reviewer estimate tokens by the same function: for every string
  both return the length divided by four, rounded up.
\<close>

theorem estimators_agree:
  "FileChunker_estimateTokens s = CodeReviewer_estimateTokens s \<and>
   CodeReviewer_estimateTokens s = \<lceil>real (length s) / 4\<rceil> \<and>
   CodeReviewer_estimateTokens s = (int (length s) + 3) div 4"
  by (simp add: estimateTokens_div reviewer_estimateTokens_div
      CodeReviewer_estimateTokens_def [symmetric])

text \<open>
  C8. The claim is that an empty text gives no chunk. The empty text splits into one empty
  line, the loop pushes it, and the guard \<open>currentChunk.length > 0\<close> of the final chunk
  holds: whatever the budgets, \<open>createChunks\<close> returns one chunk with empty content,
  lines 1 to 1 and no tokens.
\<close>

theorem empty_text_one_chunk:
  "createChunks this [] =
     [\<lparr> number = 1, content = [], startLine = 1, endLine = 1, tokens = 0, overlap = [] \<rparr>]"
  by (simp add: createChunks_def loop_body_def push_line_def final_chunk_def estimateTokens_div)

text \<open>
  C4. Coverage: for every text and every pair of budgets, the chunks of \<open>createChunks\<close>
  are numbered from one in their order, the lines of each chunk are the lines of the text
  from its \<open>startLine\<close> to its \<open>endLine\<close>, and the new lines of the chunks,
  concatenated in that order, are the lines of the text: every line is new content of
  exactly one chunk, in order.
\<close>

theorem coverage:
  "map number (createChunks this text) = [1 ..< Suc (length (createChunks this text))] \<and>
   map chunk_lines (createChunks this text) =
     map (\<lambda>c. take (nat (endLine c - startLine c + 1))
                 (drop (nat (startLine c - 1)) (split_lines text)))
       (createChunks this text) \<and>
   concat (new_lines this (createChunks this text)) = split_lines text"
proof -
  have "map chunk_lines (createChunks this text) =
     map (\<lambda>c. take (nat (endLine c - startLine c + 1))
                 (drop (nat (startLine c - 1)) (split_lines text)))
       (createChunks this text)"
    by (rule nth_equalityI) (simp_all add: createChunks_positions(5))
  then show ?thesis
    by (simp add: createChunks_numbers createChunks_new_lines del: upt_Suc)
qed

text \<open>
  C3, as stated, fails: with \<open>maxTokens = 4\<close> and \<open>overlapTokens = 1\<close> the second chunk
  of a three-line text begins with the overlap slice \<open>var x = 1;\<close>, which
  \<open>getOverlapLines\<close> returned for the first chunk and whose estimate is 3. The field
  \<open>overlap\<close> of the first chunk, read after \<open>createChunks\<close> has returned, holds both
  lines of the second chunk.
\<close>

theorem overlap_bound_counterexample:
  "(0::int) < 1 \<and> (1::int) < 4 \<and>
   overlap_slice \<lparr> maxTokens = 4, overlapTokens = 1 \<rparr>
     (createChunks \<lparr> maxTokens = 4, overlapTokens = 1 \<rparr>
        (''var x = 1;'' @ NL # ''console.log(x)'' @ NL # ''var y = 2;'')) 1 = [''var x = 1;''] \<and>
   chunk_lines
     (createChunks \<lparr> maxTokens = 4, overlapTokens = 1 \<rparr>
        (''var x = 1;'' @ NL # ''console.log(x)'' @ NL # ''var y = 2;'') ! 1) =
     [''var x = 1;'', ''console.log(x)''] \<and>
   overlap
     (createChunks \<lparr> maxTokens = 4, overlapTokens = 1 \<rparr>
        (''var x = 1;'' @ NL # ''console.log(x)'' @ NL # ''var y = 2;'') ! 0) =
     [''var x = 1;'', ''console.log(x)''] \<and>
   FileChunker_estimateTokens (join_lines [''var x = 1;'']) = 3 \<and>
   \<not> FileChunker_estimateTokens (join_lines [''var x = 1;''])
       \<le> overlapTokens \<lparr> maxTokens = 4, overlapTokens = 1 \<rparr>"
  by code_simp

text \<open>
  C3, amended. With a positive overlap budget, every chunk after the first begins with
  its overlap slice, the shortest run of lines at the end of the chunk before it whose
  estimates add up to the budget or more (the whole of that chunk when they never do).
  The slice is not empty and may exceed the budget, by less than the estimate of its
  first line: without that line its estimates add up to less than the budget.
\<close>

theorem overlap_slice_bound:
  assumes "0 < overlapTokens this" and "Suc k < length (createChunks this text)"
  shows "overlap_slice this (createChunks this text) (Suc k) \<noteq> [] \<and>
         take (length (overlap_slice this (createChunks this text) (Suc k)))
           (chunk_lines (createChunks this text ! Suc k)) =
         overlap_slice this (createChunks this text) (Suc k) \<and>
         overlap_slice this (createChunks this text) (Suc k) =
           drop (length (chunk_lines (createChunks this text ! k)) -
                 length (overlap_slice this (createChunks this text) (Suc k)))
             (chunk_lines (createChunks this text ! k)) \<and>
         sum_list (map FileChunker_estimateTokens
           (tl (overlap_slice this (createChunks this text) (Suc k)))) < overlapTokens this \<and>
         (overlapTokens this \<le> sum_list (map FileChunker_estimateTokens
            (overlap_slice this (createChunks this text) (Suc k))) \<or>
          overlap_slice this (createChunks this text) (Suc k) =
            chunk_lines (createChunks this text ! k))"
proof -
  have "chunk_lines (createChunks this text ! k) \<noteq> []"
    using assms(2) by (intro createChunks_lines_nonempty) simp
  then have "overlap_slice this (createChunks this text) (Suc k) \<noteq> []"
    using assms(1) by (simp add: overlap_slice_def getOverlapLines_nonempty)
  moreover note createChunks_chained [OF assms(2)]
  moreover have "overlap_slice this (createChunks this text) (Suc k) =
           drop (length (chunk_lines (createChunks this text ! k)) -
                 length (overlap_slice this (createChunks this text) (Suc k)))
             (chunk_lines (createChunks this text ! k))"
    using getOverlapLines_drop [of this "chunk_lines (createChunks this text ! k)"]
    by (simp add: overlap_slice_def)
  moreover have "sum_list (map FileChunker_estimateTokens
           (tl (overlap_slice this (createChunks this text) (Suc k)))) < overlapTokens this"
    using assms(1) by (simp add: overlap_slice_def getOverlapLines_tail_sum)
  moreover have "overlapTokens this \<le> sum_list (map FileChunker_estimateTokens
            (overlap_slice this (createChunks this text) (Suc k))) \<or>
          overlap_slice this (createChunks this text) (Suc k) =
            chunk_lines (createChunks this text ! k)"
    using getOverlapLines_reach [of this "chunk_lines (createChunks this text ! k)"]
    by (simp add: overlap_slice_def)
  ultimately show ?thesis by blast
qed

theorem overlap_slice_bound_witness:
  "(0::int) < overlapTokens \<lparr> maxTokens = 4, overlapTokens = 1 \<rparr> \<and>
   Suc 0 < length (createChunks \<lparr> maxTokens = 4, overlapTokens = 1 \<rparr>
        (''var x = 1;'' @ NL # ''console.log(x)'' @ NL # ''var y = 2;'')) \<and>
   sum_list (map FileChunker_estimateTokens
     (tl (overlap_slice \<lparr> maxTokens = 4, overlapTokens = 1 \<rparr>
        (createChunks \<lparr> maxTokens = 4, overlapTokens = 1 \<rparr>
           (''var x = 1;'' @ NL # ''console.log(x)'' @ NL # ''var y = 2;'')) (Suc 0))))
     < overlapTokens \<lparr> maxTokens = 4, overlapTokens = 1 \<rparr>"
proof -
  have h1: "(0::int) < overlapTokens \<lparr> maxTokens = 4, overlapTokens = 1 \<rparr>"
    by simp
  have h2: "Suc 0 < length (createChunks \<lparr> maxTokens = 4, overlapTokens = 1 \<rparr>
        (''var x = 1;'' @ NL # ''console.log(x)'' @ NL # ''var y = 2;''))"
    by code_simp
  from overlap_slice_bound [OF h1 h2] h1 h2 show ?thesis by blast
qed

text \<open>
  C5, as stated, fails: with \<open>maxTokens = 4\<close> and \<open>overlapTokens = 1\<close> the second chunk
  of the same text has two lines and a recorded total of 7; the estimate of its content
  is 7 as well.
\<close>

theorem budget_counterexample:
  "(0::int) < 1 \<and> (1::int) < 4 \<and>
   createChunks \<lparr> maxTokens = 4, overlapTokens = 1 \<rparr>
        (''var x = 1;'' @ NL # ''console.log(x)'' @ NL # ''var y = 2;'') ! 1 =
     \<lparr> number = 2, content = ''var x = 1;'' @ NL # ''console.log(x)'', startLine = 1,
       endLine = 2, tokens = 7, overlap = [''console.log(x)'', ''var y = 2;''] \<rparr> \<and>
   chunk_lines
     (createChunks \<lparr> maxTokens = 4, overlapTokens = 1 \<rparr>
        (''var x = 1;'' @ NL # ''console.log(x)'' @ NL # ''var y = 2;'') ! 1) =
     [''var x = 1;'', ''console.log(x)''] \<and>
   FileChunker_estimateTokens (''var x = 1;'' @ NL # ''console.log(x)'') = 7 \<and>
   \<not> tokens (createChunks \<lparr> maxTokens = 4, overlapTokens = 1 \<rparr>
        (''var x = 1;'' @ NL # ''console.log(x)'' @ NL # ''var y = 2;'') ! 1)
       \<le> maxTokens \<lparr> maxTokens = 4, overlapTokens = 1 \<rparr>"
  by code_simp

text \<open>
  C5, amended. Every chunk's recorded total is at most \<open>maxTokens\<close>, unless the chunk
  has exactly one new line: the line that did not fit into the chunk before it is pushed
  after the overlap slice without a further test.
\<close>

theorem budget_or_one_new_line:
  assumes "k < length (createChunks this text)"
  shows "tokens (createChunks this text ! k) \<le> maxTokens this \<or>
         length (new_lines this (createChunks this text) ! k) = 1"
  using assms by (rule createChunks_budget)

theorem budget_or_one_new_line_witness:
  "2 < length (createChunks \<lparr> maxTokens = 4, overlapTokens = 1 \<rparr>
        (''var x = 1;'' @ NL # ''console.log(x)'' @ NL # ''var y = 2;'')) \<and>
   (tokens (createChunks \<lparr> maxTokens = 4, overlapTokens = 1 \<rparr>
        (''var x = 1;'' @ NL # ''console.log(x)'' @ NL # ''var y = 2;'') ! 2)
      \<le> maxTokens \<lparr> maxTokens = 4, overlapTokens = 1 \<rparr> \<or>
    length (new_lines \<lparr> maxTokens = 4, overlapTokens = 1 \<rparr>
       (createChunks \<lparr> maxTokens = 4, overlapTokens = 1 \<rparr>
          (''var x = 1;'' @ NL # ''console.log(x)'' @ NL # ''var y = 2;'')) ! 2) = 1)"
proof -
  have h: "2 < length (createChunks \<lparr> maxTokens = 4, overlapTokens = 1 \<rparr>
        (''var x = 1;'' @ NL # ''console.log(x)'' @ NL # ''var y = 2;''))"
    by code_simp
  from budget_or_one_new_line [OF h] h show ?thesis by blast
qed

text \<open>
  C6, as stated, fails: with \<open>overlap = 9\<close> and \<open>maxTokens = 4\<close> the chunker is built
  with these very values and, the chunk files being written, \<open>chunkFile\<close> returns three
  chunks, not an error. With both budgets zero the chunker is built with the defaults
  4000 and 200.
\<close>

theorem configuration_error_counterexample:
  "(9::int) \<ge> 4 \<and>
   new_FileChunker \<lparr> opt_maxTokens = Some 4, opt_overlap = Some 9 \<rparr> =
     \<lparr> maxTokens = 4, overlapTokens = 9 \<rparr> \<and>
   chunkFile (new_FileChunker \<lparr> opt_maxTokens = Some 4, opt_overlap = Some 9 \<rparr>)
     (Some (''var x = 1;'' @ NL # ''console.log(x)'' @ NL # ''var y = 2;''))
     \<lparr> stat_ok = True, saveChunks_ok = True, saveReview_ok = True \<rparr> =
   Inr [ \<lparr> number = 1, content = ''var x = 1;'', startLine = 1, endLine = 1, tokens = 3,
           overlap = [''var x = 1;'', ''console.log(x)''] \<rparr>,
         \<lparr> number = 2, content = ''var x = 1;'' @ NL # ''console.log(x)'', startLine = 1,
           endLine = 2, tokens = 7,
           overlap = [''var x = 1;'', ''console.log(x)'', ''var y = 2;''] \<rparr>,
         \<lparr> number = 3,
           content = ''var x = 1;'' @ NL # ''console.log(x)'' @ NL # ''var y = 2;'',
           startLine = 1, endLine = 3, tokens = 10, overlap = [] \<rparr> ] \<and>
   new_FileChunker \<lparr> opt_maxTokens = Some 0, opt_overlap = Some 0 \<rparr> =
     \<lparr> maxTokens = 4000, overlapTokens = 200 \<rparr> \<and>
   chunkFile (new_FileChunker \<lparr> opt_maxTokens = Some (- 4), opt_overlap = Some (- 9) \<rparr>)
     (Some (''var x = 1;'' @ NL # ''console.log(x)''))
     \<lparr> stat_ok = True, saveChunks_ok = True, saveReview_ok = True \<rparr> =
   Inr [ \<lparr> number = 1, content = ''var x = 1;'', startLine = 1, endLine = 1, tokens = 3,
           overlap = [''console.log(x)''] \<rparr>,
         \<lparr> number = 2, content = ''console.log(x)'', startLine = 2, endLine = 2, tokens = 4,
           overlap = [] \<rparr> ]"
  by code_simp

text \<open>
  C6, amended. The chunker validates nothing: a missing or zero budget takes its default,
  4000 or 200, and every other value is kept. For every pair of options and every text,
  \<open>createChunks\<close> returns a chunk list that is not empty and whose new lines are all
  the lines of the text. \<open>chunkFile\<close> on a readable file returns that list when
  \<open>fs.stat\<close> and \<open>saveChunks\<close> succeed, and otherwise fails with the error of the file
  system, whatever the budgets: a read error when \<open>fs.stat\<close> fails, else a write error.
\<close>

theorem budgets_are_never_rejected:
  "maxTokens (new_FileChunker options) =
     (if opt_maxTokens options = None \<or> opt_maxTokens options = Some 0 then 4000
      else the (opt_maxTokens options)) \<and>
   overlapTokens (new_FileChunker options) =
     (if opt_overlap options = None \<or> opt_overlap options = Some 0 then 200
      else the (opt_overlap options)) \<and>
   createChunks (new_FileChunker options) text \<noteq> [] \<and>
   concat (new_lines (new_FileChunker options) (createChunks (new_FileChunker options) text)) =
     split_lines text \<and>
   (stat_ok disk \<and> saveChunks_ok disk \<longrightarrow>
      chunkFile (new_FileChunker options) (Some text) disk =
        Inr (createChunks (new_FileChunker options) text)) \<and>
   chunkFile (new_FileChunker options) (Some text) disk =
     (if \<not> stat_ok disk then Inl ReadError
      else if \<not> saveChunks_ok disk then Inl WriteError
      else Inr (createChunks (new_FileChunker options) text))"
proof -
  have "or_default v d = (if v = None \<or> v = Some 0 then d else the v)" for v d
    by (cases v) (simp_all add: or_default_def)
  then show ?thesis
    by (simp add: new_FileChunker_def chunkFile_def createChunks_nonempty
        createChunks_new_lines)
qed

theorem budgets_are_never_rejected_witness:
  "stat_ok \<lparr> stat_ok = True, saveChunks_ok = True, saveReview_ok = True \<rparr> \<and>
   saveChunks_ok \<lparr> stat_ok = True, saveChunks_ok = True, saveReview_ok = True \<rparr> \<and>
   chunkFile (new_FileChunker \<lparr> opt_maxTokens = Some 4, opt_overlap = Some 9 \<rparr>)
     (Some (''var x = 1;'' @ NL # ''console.log(x)''))
     \<lparr> stat_ok = True, saveChunks_ok = True, saveReview_ok = True \<rparr> =
   Inr (createChunks (new_FileChunker \<lparr> opt_maxTokens = Some 4, opt_overlap = Some 9 \<rparr>)
          (''var x = 1;'' @ NL # ''console.log(x)'')) \<and>
   chunkFile (new_FileChunker \<lparr> opt_maxTokens = Some 4, opt_overlap = Some 9 \<rparr>)
     (Some (''var x = 1;'' @ NL # ''console.log(x)''))
     \<lparr> stat_ok = True, saveChunks_ok = False, saveReview_ok = True \<rparr> =
   Inl WriteError"
proof -
  have h1: "stat_ok \<lparr> stat_ok = True, saveChunks_ok = True, saveReview_ok = True \<rparr>"
    by simp
  have h2: "saveChunks_ok \<lparr> stat_ok = True, saveChunks_ok = True, saveReview_ok = True \<rparr>"
    by simp
  have ok: "chunkFile (new_FileChunker \<lparr> opt_maxTokens = Some 4, opt_overlap = Some 9 \<rparr>)
     (Some (''var x = 1;'' @ NL # ''console.log(x)''))
     \<lparr> stat_ok = True, saveChunks_ok = True, saveReview_ok = True \<rparr> =
   Inr (createChunks (new_FileChunker \<lparr> opt_maxTokens = Some 4, opt_overlap = Some 9 \<rparr>)
          (''var x = 1;'' @ NL # ''console.log(x)''))"
    using budgets_are_never_rejected
      [of "\<lparr> opt_maxTokens = Some 4, opt_overlap = Some 9 \<rparr>"
          "''var x = 1;'' @ NL # ''console.log(x)''"
          "\<lparr> stat_ok = True, saveChunks_ok = True, saveReview_ok = True \<rparr>"]
      h1 h2
    by blast
  have failed: "chunkFile (new_FileChunker \<lparr> opt_maxTokens = Some 4, opt_overlap = Some 9 \<rparr>)
     (Some (''var x = 1;'' @ NL # ''console.log(x)''))
     \<lparr> stat_ok = True, saveChunks_ok = False, saveReview_ok = True \<rparr> =
   Inl WriteError"
    using budgets_are_never_rejected
      [of "\<lparr> opt_maxTokens = Some 4, opt_overlap = Some 9 \<rparr>"
          "''var x = 1;'' @ NL # ''console.log(x)''"
          "\<lparr> stat_ok = True, saveChunks_ok = False, saveReview_ok = True \<rparr>"]
    by simp
  from h1 h2 ok failed show ?thesis by blast
qed

section \<open>The aggregation of findings\<close>

text \<open>
  C1, as stated, fails. With \<open>maxTokens = 4\<close> and \<open>overlap = 1\<close> the text of two lines
  gives two chunks that both start at line 1; the line \<open>var x = 1;\<close> is in both, each
  review reports it at line 1 with the same message, and the combined result holds that
  finding twice.
\<close>

theorem deduplication_counterexample:
  "map startLine (createChunks \<lparr> maxTokens = 4, overlapTokens = 1 \<rparr>
       (''var x = 1;'' @ NL # ''console.log(x)'')) = [1, 1] \<and>
   reviewChunkedFile
     \<lparr> memory = \<lparr> opt_maxTokens = Some 4, opt_overlap = Some 1 \<rparr>, templateFiles = [] \<rparr>
     (Some (''var x = 1;'' @ NL # ''console.log(x)''))
     \<lparr> stat_ok = True, saveChunks_ok = True, saveReview_ok = True \<rparr>
     ''best-practices'' = Inr two_lines_review \<and>
   count_key 1 ''Use const/let instead of var'' (combined_findings two_lines_review) = 2"
  by code_simp

text \<open>
  C1, amended. \<open>combineReviews\<close> keeps every finding of every review: the number of
  findings with a given line number and message in the combined list is the sum of their
  numbers in the lists of the reviews. A finding reported in two chunks is there twice,
  once under each chunk number.
\<close>

theorem findings_are_concatenated:
  "count_key n m (combined_findings (combineReviews reviews)) =
   sum_list (map (\<lambda>r. count_key n m (review_findings r)) reviews)"
  by (simp add: combineReviews_findings count_key_tagged)

text \<open>
  C2, as stated, fails. With \<open>maxTokens = 4\<close> and \<open>overlap = 1\<close> the third chunk of the
  text of three lines starts at line 2 of the file. The finding on its first line,
  \<open>console.log(x)\<close>, which is line 2 of the file, is in the combined result with line 1.
\<close>

theorem translation_counterexample:
  "reviewChunkedFile
     \<lparr> memory = \<lparr> opt_maxTokens = Some 4, opt_overlap = Some 1 \<rparr>, templateFiles = [] \<rparr>
     (Some (''var x = 1;'' @ NL # ''console.log(x)'' @ NL # ''var y = 2;''))
     \<lparr> stat_ok = True, saveChunks_ok = True, saveReview_ok = True \<rparr>
     ''best-practices'' = Inr three_lines_review \<and>
   startLine (createChunks \<lparr> maxTokens = 4, overlapTokens = 1 \<rparr>
       (''var x = 1;'' @ NL # ''console.log(x)'' @ NL # ''var y = 2;'') ! 2) = 2 \<and>
   split_lines (''var x = 1;'' @ NL # ''console.log(x)'' @ NL # ''var y = 2;'') ! 1 = ''console.log(x)'' \<and>
   split_lines (''var x = 1;'' @ NL # ''console.log(x)'' @ NL # ''var y = 2;'') ! 0 \<noteq> ''console.log(x)'' \<and>
   combined_findings three_lines_review ! 3 =
     \<lparr> line = 1, severity = low, message = ''Remove console statements'',
       code = ''console.log(x)'', chunk = 3 \<rparr> \<and>
   int (line (combined_findings three_lines_review ! 3)) \<noteq>
     startLine (createChunks \<lparr> maxTokens = 4, overlapTokens = 1 \<rparr>
       (''var x = 1;'' @ NL # ''console.log(x)'' @ NL # ''var y = 2;'') ! 2) +
     int (line (combined_findings three_lines_review ! 3)) - 1"
  by code_simp

text \<open>
  C2, amended. Every finding of the combined result carries the line number that
  \<open>analyzeCode\<close> gave it, counted from one within the content of its chunk, and the
  number of that chunk, counted from one; \<open>combineReviews\<close> translates nothing. The
  finding's \<open>code\<close> is the trimmed line at that position of the chunk, which is the
  line of the file whose number is the chunk's \<open>startLine\<close> plus the finding's line
  number minus one.
\<close>

theorem findings_keep_chunk_local_lines:
  assumes "reviewChunkedFile this (Some text) disk template = Inr r"
    and "f \<in> set (combined_findings r)"
  shows "1 \<le> chunk f \<and>
         chunk f \<le> length (createChunks (new_FileChunker (memory this)) text) \<and>
         1 \<le> line f \<and>
         line f \<le> length (chunk_lines
           (createChunks (new_FileChunker (memory this)) text ! (chunk f - 1))) \<and>
         code f =
           trim (chunk_lines (createChunks (new_FileChunker (memory this)) text ! (chunk f - 1)) !
                 (line f - 1)) \<and>
         code f =
           trim (split_lines text !
                 (nat (startLine (createChunks (new_FileChunker (memory this)) text !
                        (chunk f - 1))) - 1 + (line f - 1)))"
proof -
  let ?cs = "createChunks (new_FileChunker (memory this)) text"
  from assms(1) obtain reviews
    where rc: "review_chunks this template ?cs = Inr reviews" and r: "r = combineReviews reviews"
    by (auto dest: reviewChunkedFile_Inr)
  have len: "length reviews = length ?cs"
    using rc by (rule reviewed_chunks(1))
  from assms(2) r have "f \<in> set (tagged 0 reviews)"
    by (simp add: combineReviews_findings)
  then obtain k g where k: "k < length reviews"
    and g: "g \<in> set (review_findings (reviews ! k))" and f: "f = with_chunk (0 + k + 1) g"
    by (auto dest: tagged_member)
  from k len obtain ps
    where "review_findings (reviews ! k) = analyze_lines ps 0 (chunk_lines (?cs ! k))"
    using reviewed_chunks(2) [OF rc, of k] by auto
  with g have local: "0 + 1 \<le> line g \<and> line g \<le> 0 + length (chunk_lines (?cs ! k)) \<and>
      code g = trim (chunk_lines (?cs ! k) ! (line g - 1 - 0))"
    by (auto dest: analyze_lines_member)
  have kc: "k < length ?cs" using k len by simp
  have "line g - 1 < length (chunk_lines (?cs ! k))"
    using local by linarith
  from chunk_line_in_file(1) [OF kc this]
  have "chunk_lines (?cs ! k) ! (line g - 1) =
      split_lines text ! (nat (startLine (?cs ! k)) - 1 + (line g - 1))" .
  with local f k len show ?thesis by (simp add: with_chunk_def)
qed

theorem findings_keep_chunk_local_lines_witness:
  "reviewChunkedFile
     \<lparr> memory = \<lparr> opt_maxTokens = Some 4, opt_overlap = Some 1 \<rparr>, templateFiles = [] \<rparr>
     (Some (''var x = 1;'' @ NL # ''console.log(x)''))
     \<lparr> stat_ok = True, saveChunks_ok = True, saveReview_ok = True \<rparr>
     ''best-practices'' = Inr two_lines_review \<and>
   combined_findings two_lines_review ! 2 \<in> set (combined_findings two_lines_review) \<and>
   line (combined_findings two_lines_review ! 2)
     \<le> length (chunk_lines (createChunks (new_FileChunker (memory \<lparr> memory = \<lparr> opt_maxTokens = Some 4, opt_overlap = Some 1 \<rparr>, templateFiles = [] \<rparr>))
       (''var x = 1;'' @ NL # ''console.log(x)'') !
         (chunk (combined_findings two_lines_review ! 2) - 1))) \<and>
   code (combined_findings two_lines_review ! 2) =
     trim (split_lines (''var x = 1;'' @ NL # ''console.log(x)'') !
       (nat (startLine (createChunks (new_FileChunker (memory \<lparr> memory = \<lparr> opt_maxTokens = Some 4, opt_overlap = Some 1 \<rparr>, templateFiles = [] \<rparr>))
       (''var x = 1;'' @ NL # ''console.log(x)'') !
          (chunk (combined_findings two_lines_review ! 2) - 1))) - 1 +
        (line (combined_findings two_lines_review ! 2) - 1)))"
proof -
  have h1: "reviewChunkedFile
     \<lparr> memory = \<lparr> opt_maxTokens = Some 4, opt_overlap = Some 1 \<rparr>, templateFiles = [] \<rparr>
     (Some (''var x = 1;'' @ NL # ''console.log(x)''))
     \<lparr> stat_ok = True, saveChunks_ok = True, saveReview_ok = True \<rparr>
     ''best-practices'' = Inr two_lines_review"
    by code_simp
  have h2: "combined_findings two_lines_review ! 2 \<in> set (combined_findings two_lines_review)"
    by simp
  from findings_keep_chunk_local_lines [OF h1 h2] h1 h2 show ?thesis by blast
qed

text \<open>
  C7, as stated, fails. In the combined result of the text of two lines the second
  finding has severity \<open>info\<close> and the third has severity \<open>low\<close>, a higher rank.
\<close>

theorem ordering_counterexample:
  "reviewChunkedFile
     \<lparr> memory = \<lparr> opt_maxTokens = Some 4, opt_overlap = Some 1 \<rparr>, templateFiles = [] \<rparr>
     (Some (''var x = 1;'' @ NL # ''console.log(x)''))
     \<lparr> stat_ok = True, saveChunks_ok = True, saveReview_ok = True \<rparr>
     ''best-practices'' = Inr two_lines_review \<and>
   severity (combined_findings two_lines_review ! 1) = info \<and>
   severity (combined_findings two_lines_review ! 2) = low \<and>
   \<not> rank (severity (combined_findings two_lines_review ! 1))
       \<ge> rank (severity (combined_findings two_lines_review ! 2))"
  by code_simp

text \<open>
  C7, amended. The findings of the combined result are in the order of the chunks and,
  within a chunk, in the order of their chunk-local line numbers: chunk numbers are
  non-decreasing and, within one chunk, line numbers are non-decreasing. The severity
  plays no part in the order.
\<close>

theorem findings_in_chunk_then_line_order:
  assumes "reviewChunkedFile this (Some text) disk template = Inr r"
  shows "sorted_wrt (\<lambda>f g. chunk f < chunk g \<or> (chunk f = chunk g \<and> line f \<le> line g))
           (combined_findings r)"
proof -
  let ?cs = "createChunks (new_FileChunker (memory this)) text"
  from assms obtain reviews
    where rc: "review_chunks this template ?cs = Inr reviews" and r: "r = combineReviews reviews"
    by (auto dest: reviewChunkedFile_Inr)
  have len: "length reviews = length ?cs"
    using rc by (rule reviewed_chunks(1))
  have "\<forall>x\<in>set reviews. sorted (map line (review_findings x))"
  proof
    fix x assume "x \<in> set reviews"
    then obtain k where k: "k < length reviews" and x: "x = reviews ! k"
      by (auto simp: in_set_conv_nth)
    from k len obtain ps
      where "review_findings (reviews ! k) = analyze_lines ps 0 (chunk_lines (?cs ! k))"
      using reviewed_chunks(2) [OF rc, of k] by auto
    with x show "sorted (map line (review_findings x))"
      by (simp add: analyze_lines_sorted)
  qed
  then show ?thesis
    unfolding r combineReviews_findings by (rule tagged_sorted)
qed

theorem findings_in_chunk_then_line_order_witness:
  "reviewChunkedFile
     \<lparr> memory = \<lparr> opt_maxTokens = Some 4, opt_overlap = Some 1 \<rparr>, templateFiles = [] \<rparr>
     (Some (''var x = 1;'' @ NL # ''console.log(x)''))
     \<lparr> stat_ok = True, saveChunks_ok = True, saveReview_ok = True \<rparr>
     ''best-practices'' = Inr two_lines_review \<and>
   sorted_wrt (\<lambda>f g. chunk f < chunk g \<or> (chunk f = chunk g \<and> line f \<le> line g))
     (combined_findings two_lines_review)"
proof -
  have h: "reviewChunkedFile
     \<lparr> memory = \<lparr> opt_maxTokens = Some 4, opt_overlap = Some 1 \<rparr>, templateFiles = [] \<rparr>
     (Some (''var x = 1;'' @ NL # ''console.log(x)''))
     \<lparr> stat_ok = True, saveChunks_ok = True, saveReview_ok = True \<rparr>
     ''best-practices'' = Inr two_lines_review"
    by code_simp
  from findings_in_chunk_then_line_order [OF h] h show ?thesis by blast
qed

text \<open>
  C9, as stated, fails. The text of two lines has 2 lines and 7 estimated tokens; its two
  chunks have 1 and 2 lines, and the combined metrics count 3 lines and 10 tokens.
\<close>

theorem metrics_counterexample:
  "reviewChunkedFile
     \<lparr> memory = \<lparr> opt_maxTokens = Some 4, opt_overlap = Some 1 \<rparr>, templateFiles = [] \<rparr>
     (Some (''var x = 1;'' @ NL # ''console.log(x)''))
     \<lparr> stat_ok = True, saveChunks_ok = True, saveReview_ok = True \<rparr>
     ''best-practices'' = Inr two_lines_review \<and>
   calculateMetrics (''var x = 1;'' @ NL # ''console.log(x)'') =
     \<lparr> totalLines = 2, codeLines = 2, commentLines = 0, complexity = 1, metrics_tokens = 7 \<rparr> \<and>
   combined_metrics two_lines_review \<noteq>
     calculateMetrics (''var x = 1;'' @ NL # ''console.log(x)'')"
  by code_simp

text \<open>
  C9, amended. The combined metrics are the sums of the metrics of the chunks, each
  computed on the content of the chunk, overlap lines included. The combined line count
  is the line count of the file plus the number of lines in the overlap slices of the
  chunks, and the combined token count is the sum of the estimates of the chunk contents.
\<close>

theorem metrics_are_sums_over_chunk_contents:
  assumes "reviewChunkedFile this (Some text) disk template = Inr r"
  shows "combined_metrics r =
           sum_metrics (map (\<lambda>c. calculateMetrics (content c))
             (createChunks (new_FileChunker (memory this)) text)) \<and>
         totalLines (combined_metrics r) =
           int (length (split_lines text)) +
           int (length (concat (overlap_slices (new_FileChunker (memory this))
                  (createChunks (new_FileChunker (memory this)) text)))) \<and>
         metrics_tokens (combined_metrics r) =
           sum_list (map (\<lambda>c. CodeReviewer_estimateTokens (content c))
             (createChunks (new_FileChunker (memory this)) text))"
proof -
  let ?cs = "createChunks (new_FileChunker (memory this)) text"
  from assms obtain reviews
    where rc: "review_chunks this template ?cs = Inr reviews" and r: "r = combineReviews reviews"
    by (auto dest: reviewChunkedFile_Inr)
  have m: "combined_metrics r = sum_metrics (map (\<lambda>c. calculateMetrics (content c)) ?cs)"
    unfolding r combineReviews_metrics reviewed_chunks(3) [OF rc] ..
  moreover have "totalLines (combined_metrics r) =
      int (length (split_lines text)) +
      int (length (concat (overlap_slices (new_FileChunker (memory this)) ?cs)))"
    unfolding m totalLines_sum_metrics createChunks_total_lines by simp
  moreover have "metrics_tokens (combined_metrics r) =
      sum_list (map (\<lambda>c. CodeReviewer_estimateTokens (content c)) ?cs)"
    unfolding m by (rule tokens_sum_metrics)
  ultimately show ?thesis by blast
qed

theorem metrics_are_sums_over_chunk_contents_witness:
  "reviewChunkedFile
     \<lparr> memory = \<lparr> opt_maxTokens = Some 4, opt_overlap = Some 1 \<rparr>, templateFiles = [] \<rparr>
     (Some (''var x = 1;'' @ NL # ''console.log(x)''))
     \<lparr> stat_ok = True, saveChunks_ok = True, saveReview_ok = True \<rparr>
     ''best-practices'' = Inr two_lines_review \<and>
   totalLines (combined_metrics two_lines_review) =
     int (length (split_lines (''var x = 1;'' @ NL # ''console.log(x)''))) +
     int (length (concat (overlap_slices (new_FileChunker (memory \<lparr> memory = \<lparr> opt_maxTokens = Some 4, opt_overlap = Some 1 \<rparr>, templateFiles = [] \<rparr>))
            (createChunks (new_FileChunker (memory \<lparr> memory = \<lparr> opt_maxTokens = Some 4, opt_overlap = Some 1 \<rparr>, templateFiles = [] \<rparr>))
       (''var x = 1;'' @ NL # ''console.log(x)'')))))"
proof -
  have h: "reviewChunkedFile
     \<lparr> memory = \<lparr> opt_maxTokens = Some 4, opt_overlap = Some 1 \<rparr>, templateFiles = [] \<rparr>
     (Some (''var x = 1;'' @ NL # ''console.log(x)''))
     \<lparr> stat_ok = True, saveChunks_ok = True, saveReview_ok = True \<rparr>
     ''best-practices'' = Inr two_lines_review"
    by code_simp
  from metrics_are_sums_over_chunk_contents [OF h] h show ?thesis by blast
qed

end
